theory Spec2Isabelle
  imports Complex_Main "HOL-Library.AList" "HOL-Library.Multiset"
begin

section \<open>Python values shared by the supplier modules\<close>

text \<open>
  Exceptions are values: a function that can raise returns \<open>exn + 'a\<close>, with \<open>Inl\<close>
  the exception. Only the exception classes the supplier code raises, catches or lets
  through are listed; \<open>OtherException\<close> stands for any class that is none of them.
\<close>

datatype exn =
    AssertionError
  | AttributeError
  | KeyError
  | IndexError
  | TypeError
  | UnboundLocalError
  | Timeout
  | ConnectionError
  | HTTPError
  | JSONDecodeError
  | ImportError string
  | OtherException string

text \<open>
  A Python \<open>dict\<close> keeps one value per key in insertion order: an association list
  with distinct keys, written with \<open>AList.update\<close> (\<open>d[k] = v\<close>) and read with
  \<open>map_of\<close> (\<open>d.get(k)\<close>). A comprehension \<open>{k: v for ...}\<close> stores the pairs from
  left to right, a later pair replacing the value of an equal key.
\<close>

definition dict_of :: "('k \<times> 'v) list \<Rightarrow> ('k \<times> 'v) list" where
  "dict_of kvs = foldl (\<lambda>d (k, v). AList.update k v d) [] kvs"

text \<open>\<open>str.lower\<close>, on the ASCII letters.\<close>

definition lower_char :: "char \<Rightarrow> char" where
  "lower_char c =
     (if 65 \<le> (of_char c :: nat) \<and> (of_char c :: nat) \<le> 90
      then char_of (of_char c + 32 :: nat) else c)"

definition lower :: "string \<Rightarrow> string" where
  "lower s = map lower_char s"

section \<open>The canonical part record (\<open>ApiPart\<close>)\<close>

text \<open>
  The fields are those the adapters pass by keyword. Prices are JSON numbers; they are
  modelled as rationals, which order as the finite floats do.
\<close>

record ApiPart =
  description :: string
  image_url :: "string option"
  datasheet_url :: "string option"
  supplier_link :: string
  SKU :: string
  manufacturer :: string
  manufacturer_link :: string
  MPN :: string
  quantity_available :: int
  packaging :: string
  category_path :: "string list"
  parameters :: "(string \<times> string) list option"
  price_breaks :: "(int \<times> rat) list"
  currency :: string

section \<open>Future Electronics: the upstream schema and \<open>FE.get_api_part\<close>\<close>

text \<open>
  One offer of the lookup response, with the keys \<open>get_api_part\<close> reads:
  \<open>part_attributes\<close> as (name, value) pairs, \<open>pricing\<close> as
  (quantity_from, unit_price) pairs, \<open>images\<close> as their urls, \<open>documents\<close> as
  (type, url) pairs.
\<close>

record fe_part =
  fe_part_attributes :: "(string \<times> string) list"
  fe_quantity_minimum :: int
  fe_quantity_available :: int
  fe_pricing :: "(int \<times> rat) list"
  fe_images :: "string list"
  fe_documents :: "(string \<times> string) list"
  fe_web_url :: string
  fe_seller_part_number :: string
  fe_mpn :: string
  fe_currency_code :: string

text \<open>
  The loop over \<open>fe_part["pricing"]\<close>: the state is the dict \<open>pricing\<close> and
  \<open>best_price_for_minimum\<close> (\<open>None\<close> until a break at or below the minimum is seen).
\<close>

fun pricing_loop ::
  "int \<Rightarrow> (int \<times> rat) list \<Rightarrow> (int \<times> rat) list \<Rightarrow> rat option \<Rightarrow> (int \<times> rat) list \<times> rat option"
where
  "pricing_loop minimum_qty [] pricing best_price_for_minimum = (pricing, best_price_for_minimum)"
| "pricing_loop minimum_qty ((qty, price) # vs) pricing best_price_for_minimum =
     (if qty \<le> minimum_qty then
        (case best_price_for_minimum of
           None \<Rightarrow> pricing_loop minimum_qty vs pricing (Some price)
         | Some best \<Rightarrow>
             if best > price then pricing_loop minimum_qty vs pricing (Some price)
             else pricing_loop minimum_qty vs pricing (Some best))
      else pricing_loop minimum_qty vs (AList.update qty price pricing) best_price_for_minimum)"

definition FE_price_breaks :: "int \<Rightarrow> (int \<times> rat) list \<Rightarrow> (int \<times> rat) list" where
  "FE_price_breaks minimum_qty upstream =
     (case pricing_loop minimum_qty upstream [] None of
        (pricing, None) \<Rightarrow> pricing
      | (pricing, Some best) \<Rightarrow> AList.update minimum_qty best pricing)"

definition attribute_or_empty :: "(string \<times> string) list \<Rightarrow> string \<Rightarrow> string" where
  "attribute_or_empty attributes k = (case map_of attributes k of Some v \<Rightarrow> v | None \<Rightarrow> [])"

definition FE_get_api_part :: "fe_part \<Rightarrow> ApiPart" where
  "FE_get_api_part p =
     (let attributes = dict_of (fe_part_attributes p) in
      \<lparr> description = attribute_or_empty attributes ''description (en)'',
        image_url = Some (if length (fe_images p) \<noteq> 0 then last (fe_images p) else []),
        datasheet_url =
          Some (case filter (\<lambda>(ty, url). lower ty = ''datasheet'') (fe_documents p) of
                  [] \<Rightarrow> []
                | (ty, url) # _ \<Rightarrow> url),
        supplier_link = fe_web_url p,
        SKU = fe_seller_part_number p,
        manufacturer = attribute_or_empty attributes ''manufacturerName'',
        manufacturer_link = [],
        MPN = fe_mpn p,
        quantity_available = fe_quantity_available p,
        packaging = attribute_or_empty attributes ''packageType'',
        category_path = [],
        parameters = None,
        price_breaks = FE_price_breaks (fe_quantity_minimum p) (fe_pricing p),
        currency = fe_currency_code p \<rparr>)"

section \<open>Texas Instruments: the upstream schema and \<open>TI.get_api_part\<close>\<close>

text \<open>
  An entry of \<open>ti_part["pricing"]\<close>: its currency and its \<open>priceBreaks\<close> as
  (priceBreakQuantity, price) pairs.
\<close>

record ti_price_list =
  pl_currency :: string
  pl_priceBreaks :: "(int \<times> rat) list"

text \<open>An entry of a response's \<open>errors\<close> array; each key may be missing.\<close>

record ti_error =
  errorCode :: "string option"
  message :: "string option"

text \<open>
  A product object. \<open>ti_errors\<close> is the value of its \<open>errors\<close> key when it has one.
\<close>

record ti_part =
  ti_description :: string
  ti_buyNowUrl :: string
  ti_tiPartNumber :: string
  ti_quantity :: int
  ti_packageCarrier :: string
  ti_pricing :: "ti_price_list list"
  ti_errors :: "ti_error list option"

text \<open>
  The loop choosing \<open>pricingData\<close>: the first list in the target currency ends the
  loop; a list in USD is kept and the loop goes on.
\<close>

fun select_pricing :: "string \<Rightarrow> ti_price_list list \<Rightarrow> ti_price_list \<Rightarrow> ti_price_list" where
  "select_pricing target [] pricingData = pricingData"
| "select_pricing target (v # vs) pricingData =
     (if pl_currency v = target then v
      else if pl_currency v = ''USD'' then select_pricing target vs v
      else select_pricing target vs pricingData)"

definition TI_pricingData :: "string \<Rightarrow> ti_part \<Rightarrow> ti_price_list" where
  "TI_pricingData target p =
     select_pricing target (ti_pricing p) \<lparr> pl_currency = target, pl_priceBreaks = [] \<rparr>"

definition TI_name :: string where
  "TI_name = ''Texas Instruments''"

definition TI_get_api_part :: "string \<Rightarrow> ti_part \<Rightarrow> ApiPart" where
  "TI_get_api_part target p =
     (let pricingData = TI_pricingData target p in
      \<lparr> description = ti_description p,
        image_url = None,
        datasheet_url = None,
        supplier_link = ti_buyNowUrl p,
        SKU = ti_tiPartNumber p,
        manufacturer = TI_name,
        manufacturer_link = ti_buyNowUrl p,
        MPN = ti_tiPartNumber p,
        quantity_available = ti_quantity p,
        packaging = ti_packageCarrier p,
        category_path = [],
        parameters = None,
        price_breaks = dict_of (pl_priceBreaks pricingData),
        currency = pl_currency pricingData \<rparr>)"

section \<open>The remote services and the log\<close>

text \<open>
  What \<open>requests.get\<close> and \<open>requests.post\<close> are called with. The query is the
  \<open>urldata\<close> dict that \<open>_do_request\<close> appends url-encoded to the address; the model
  keeps it as the dict.
\<close>

datatype http_method = GET | POST

datatype qvalue = QStr string | QInt int

record request =
  rq_method :: http_method
  rq_url :: string
  rq_query :: "(string \<times> qvalue) list"
  rq_headers :: "(string \<times> string) list"
  rq_data :: "(string \<times> string) list option"

text \<open>
  A response: its status and what \<open>.json()\<close> gives, \<open>None\<close> when the body is not
  JSON (\<open>.json()\<close> then raises \<open>JSONDecodeError\<close>). A call ends with a response, a
  timeout or a connection failure.
\<close>

record 'j response =
  status_code :: nat
  json :: "'j option"

datatype 'j http_outcome = NetTimeout | NetConnectionError | NetResponse "'j response"

text \<open>\<open>Response.raise_for_status\<close> raises \<open>HTTPError\<close> on a 4xx or 5xx status.\<close>

definition raises_for_status :: "'j response \<Rightarrow> bool" where
  "raises_for_status r \<longleftrightarrow> 400 \<le> status_code r \<and> status_code r < 600"

text \<open>
  Messages written by \<open>error(...)\<close> (with its \<open>prefix\<close> argument when one is passed)
  and by \<open>hint(...)\<close>.
\<close>

datatype log_entry = LogError "string option" string | LogHint string

text \<open>
  The world a call runs in: the requests sent so far, the number of readings of
  \<open>time.monotonic()\<close> so far, and the log. The environment answers the \<open>n\<close>-th request
  and the \<open>n\<close>-th reading of the clock, and fixes the attempt count of the retry policy.
\<close>

record world =
  sent :: "request list"
  ticks :: nat
  logged :: "log_entry list"

record 'j env =
  max_attempts :: nat
  net :: "nat \<Rightarrow> request \<Rightarrow> 'j http_outcome"
  clock :: "nat \<Rightarrow> rat"

text \<open>A text between single quotes, as the messages have it.\<close>

definition quoted :: "string \<Rightarrow> string" where
  "quoted s = [CHR 0x27] @ s @ [CHR 0x27]"

definition error :: "string option \<Rightarrow> string \<Rightarrow> world \<Rightarrow> world" where
  "error prefix msg w = w\<lparr>logged := logged w @ [LogError prefix msg]\<rparr>"

definition requests_call :: "'j env \<Rightarrow> request \<Rightarrow> world \<Rightarrow> (exn + 'j response) \<times> world" where
  "requests_call env rq w =
     (case net env (length (sent w)) rq of
        NetTimeout \<Rightarrow> Inl Timeout
      | NetConnectionError \<Rightarrow> Inl ConnectionError
      | NetResponse r \<Rightarrow> Inr r,
      w\<lparr>sent := sent w @ [rq]\<rparr>)"

text \<open>The text of an exception in a message (\<open>f"{e}"\<close>): the class name stands for it.\<close>

fun str_exn :: "exn \<Rightarrow> string" where
  "str_exn AssertionError = ''AssertionError''"
| "str_exn AttributeError = ''AttributeError''"
| "str_exn KeyError = ''KeyError''"
| "str_exn IndexError = ''IndexError''"
| "str_exn TypeError = ''TypeError''"
| "str_exn UnboundLocalError = ''UnboundLocalError''"
| "str_exn Timeout = ''Timeout''"
| "str_exn ConnectionError = ''ConnectionError''"
| "str_exn HTTPError = ''HTTPError''"
| "str_exn JSONDecodeError = ''JSONDecodeError''"
| "str_exn (ImportError msg) = msg"
| "str_exn (OtherException msg) = msg"

section \<open>The retry policy\<close>

text \<open>How the body of a \<open>with retry:\<close> block ends: it runs to its end, returns from the
  enclosing function, or raises.\<close>

datatype 'r flow = Completed | Returned 'r | Raised exn

text \<open>
  Modelled from the spec: \<open>retry_timeouts\<close> of \<open>retries.py\<close>, which is not among the
  sources. It yields at most \<open>max_attempts\<close> attempts; an attempt that ends in a timeout
  or a connection failure is retried while attempts remain; when none remains the failure
  propagates; any other exception propagates at once; an attempt that does not raise ends
  the loop. The delay between attempts is not modelled.
\<close>

fun retry_timeouts :: "nat \<Rightarrow> ('s \<Rightarrow> 'r flow \<times> 's) \<Rightarrow> 's \<Rightarrow> 'r flow \<times> 's" where
  "retry_timeouts 0 body s = (Completed, s)"
| "retry_timeouts (Suc n) body s =
     (case body s of
        (Raised e, s') \<Rightarrow>
          if (e = Timeout \<or> e = ConnectionError) \<and> n \<noteq> 0 then retry_timeouts n body s'
          else (Raised e, s')
      | (Completed, s') \<Rightarrow> (Completed, s')
      | (Returned r, s') \<Rightarrow> (Returned r, s'))"

text \<open>
  The handler of \<open>except (HTTPError, Timeout) as e\<close>, the same in both adapters. It reads
  the local \<open>result\<close>, unbound (\<open>None\<close> here) when no request has returned a response.
  \<open>errors\<close> is the value of the body's \<open>errors\<close> key as the list of its entries'
  \<open>message\<close> values. \<open>JSONDecodeError\<close> and \<open>KeyError\<close> are caught by the inner
  handler; the others escape.
\<close>

definition except_handler ::
  "string \<Rightarrow> exn \<Rightarrow> 'j response option \<Rightarrow> ('j \<Rightarrow> string option list option) \<Rightarrow> world
     \<Rightarrow> (exn + 'j response option) \<times> world"
where
  "except_handler action e result errors_of w =
     (let failed_with = (\<lambda>txt.
            (Inr None,
             error (Some ''TI API error: '') (quoted action @ '' action failed with '' @ quoted txt) w))
      in case result of
           None \<Rightarrow> (Inl UnboundLocalError, w)
         | Some r \<Rightarrow>
             (case json r of
                None \<Rightarrow> failed_with (str_exn e)
              | Some j \<Rightarrow>
                  (case errors_of j of
                     None \<Rightarrow> failed_with (str_exn e)
                   | Some [] \<Rightarrow> (Inl IndexError, w)
                   | Some (None # _) \<Rightarrow> failed_with (str_exn e)
                   | Some (Some msg # _) \<Rightarrow> failed_with msg)))"

section \<open>Future Electronics: \<open>FEApi\<close> and \<open>FE.search\<close>\<close>

text \<open>
  A JSON object of this service: the value of its \<open>offers\<close> key and the value of its
  \<open>errors\<close> key (as the list of the entries' \<open>message\<close> values), each \<open>None\<close>
  when the object has no such key.
\<close>

record fe_json =
  fe_offers :: "fe_part list option"
  fe_errors :: "string option list option"

definition FE_BASE_URL :: string where
  "FE_BASE_URL = ''https://api.futureelectronics.com/api/''"

text \<open>
  \<open>FEApi._do_request\<close>, in three parts: the body of the \<open>with retry:\<close> block, what
  follows the loop (the \<open>except\<close> clause and the final \<open>return result\<close>), and the
  function. The loop state is the local \<open>result\<close> (\<open>None\<close> while unbound) and the
  world.
\<close>

definition FE_attempt ::
  "fe_json env \<Rightarrow> request \<Rightarrow> fe_json response option \<times> world
     \<Rightarrow> fe_json response option flow \<times> fe_json response option \<times> world"
where
  "FE_attempt env rq = (\<lambda>(result, w).
     case requests_call env rq w of
       (Inl e, w') \<Rightarrow> (Raised e, (result, w'))
     | (Inr r, w') \<Rightarrow>
         if raises_for_status r then (Raised HTTPError, (Some r, w'))
         else (Completed, (Some r, w')))"

definition FE_after_loop ::
  "string \<Rightarrow> fe_json response option flow \<times> fe_json response option \<times> world
     \<Rightarrow> (exn + fe_json response option) \<times> world"
where
  "FE_after_loop action = (\<lambda>(fl, (result, w')).
     case fl of
       Raised e \<Rightarrow>
         if e = HTTPError \<or> e = Timeout then except_handler action e result fe_errors w'
         else (Inl e, w')
     | Returned r \<Rightarrow> (Inr r, w')
     | Completed \<Rightarrow>
         (case result of
            None \<Rightarrow> (Inl UnboundLocalError, w')
          | Some r \<Rightarrow> (Inr (Some r), w')))"

definition FE_do_request ::
  "fe_json env \<Rightarrow> string \<Rightarrow> string \<Rightarrow> (string \<times> qvalue) list option \<Rightarrow> world
     \<Rightarrow> (exn + fe_json response option) \<times> world"
where
  "FE_do_request env key action urldata w =
     (let rq = \<lparr> rq_method = GET,
                 rq_url = FE_BASE_URL @ action,
                 rq_query = (case urldata of None \<Rightarrow> [] | Some d \<Rightarrow> d),
                 rq_headers = [(''Accept'', ''application/json''), (''x-orbweaver-licensekey'', key)],
                 rq_data = None \<rparr>
      in FE_after_loop action (retry_timeouts (max_attempts env) (FE_attempt env rq) (None, w)))"

definition FE_lookup ::
  "fe_json env \<Rightarrow> string \<Rightarrow> string \<Rightarrow> string \<Rightarrow> world \<Rightarrow> (exn + fe_json option) \<times> world"
where
  "FE_lookup env key search_term kind w =
     (case FE_do_request env key ''v1/pim-future/lookup''
             (Some [(''part_number'', QStr search_term), (''lookup_type'', QStr kind)]) w of
        (Inl e, w') \<Rightarrow> (Inl e, w')
      | (Inr None, w') \<Rightarrow> (Inr None, w')
      | (Inr (Some result), w') \<Rightarrow>
          (case json result of
             None \<Rightarrow> (Inl JSONDecodeError, w')
           | Some j \<Rightarrow> (Inr (Some j), w')))"

text \<open>\<open>FE.search\<close>; \<open>lookup\<close> is called with its default kind, \<open>searchKind.CONTAINS\<close>.\<close>

definition FE_search ::
  "fe_json env \<Rightarrow> string \<Rightarrow> string \<Rightarrow> world \<Rightarrow> (exn + ApiPart list \<times> nat) \<times> world"
where
  "FE_search env key search_term w =
     (case FE_lookup env key search_term ''contains'' w of
        (Inl e, w') \<Rightarrow> (Inl e, w')
      | (Inr None, w') \<Rightarrow> (Inr ([], 0), w')
      | (Inr (Some result), w') \<Rightarrow>
          (case fe_offers result of
             None \<Rightarrow> (Inl KeyError, w')
           | Some fe_parts \<Rightarrow> (Inr (map FE_get_api_part fe_parts, length fe_parts), w')))"

section \<open>Texas Instruments: \<open>TIApi\<close> and \<open>TI.search\<close>\<close>

text \<open>
  A JSON object of this service, by the keys it has: a token (\<open>token_type\<close>,
  \<open>access_token\<close>, \<open>expires_in\<close>), a page of products (\<open>content\<close>, \<open>last\<close>), a
  product, or an object with none of these keys, of which only the value of \<open>errors\<close>
  (if it has the key) is read. Reading a key that an object lacks raises \<open>KeyError\<close>.
\<close>

datatype ti_json =
    TokenObj string string rat
  | PageObj "ti_part list" bool
  | PartObj ti_part
  | OtherObj "ti_error list option"

fun errors_of :: "ti_json \<Rightarrow> ti_error list option" where
  "errors_of (PartObj p) = ti_errors p"
| "errors_of (OtherObj es) = es"
| "errors_of (TokenObj token_type access_token expires_in) = None"
| "errors_of (PageObj content is_last) = None"

record TIApi =
  api_key :: string
  api_secret :: string
  api_currency :: string
  oauthAccessToken :: string
  oauthValidUntil :: rat

text \<open>\<open>TIApi(key, secret, currency)\<close>, with the class attributes as initial cache.\<close>

definition TIApi_init :: "string \<Rightarrow> string \<Rightarrow> string \<Rightarrow> TIApi" where
  "TIApi_init key secret target =
     \<lparr> api_key = key, api_secret = secret, api_currency = target,
       oauthAccessToken = [], oauthValidUntil = 0 \<rparr>"

definition TI_BASE_URL :: string where
  "TI_BASE_URL = ''https://transact.ti.com/''"

text \<open>
  The closure \<open>send\<close> of \<open>_do_request\<close>. It writes the \<open>Authorization\<close> header into the
  \<open>headers\<close> dict of the enclosing call, so the headers are part of the state.
  \<open>getOauthToken\<close> is the method \<open>self._getOauthToken\<close>.
\<close>

definition TI_send ::
  "(TIApi \<times> world \<Rightarrow> (exn + string option) \<times> TIApi \<times> world) \<Rightarrow> ti_json env \<Rightarrow> string
     \<Rightarrow> (string \<times> qvalue) list \<Rightarrow> bool \<Rightarrow> (string \<times> string) list option
     \<Rightarrow> (string \<times> string) list \<times> TIApi \<times> world
     \<Rightarrow> (exn + ti_json response option) \<times> (string \<times> string) list \<times> TIApi \<times> world"
where
  "TI_send getOauthToken env url query auth bodydata = (\<lambda>(headers, st).
     case (if auth then
             (case getOauthToken st of
                (Inl e, st') \<Rightarrow> (Inl e, headers, st')
              | (Inr None, st') \<Rightarrow> (Inr False, headers, st')
              | (Inr (Some token), st') \<Rightarrow>
                  (Inr True, AList.update ''Authorization'' (''Bearer '' @ token) headers, st'))
           else (Inr True, headers, st)) of
       (Inl e, headers', st') \<Rightarrow> (Inl e, headers', st')
     | (Inr False, headers', st') \<Rightarrow> (Inr None, headers', st')
     | (Inr True, headers', (self, w)) \<Rightarrow>
         (case requests_call env
                 \<lparr> rq_method = (if bodydata \<noteq> None then POST else GET),
                   rq_url = url, rq_query = query, rq_headers = headers', rq_data = bodydata \<rparr> w of
            (Inl e, w') \<Rightarrow> (Inl e, headers', (self, w'))
          | (Inr r, w') \<Rightarrow> (Inr (Some r), headers', (self, w'))))"

text \<open>
  \<open>TIApi._do_request\<close>, with the method it calls when \<open>auth\<close> is set as a parameter
  (\<open>_getOauthToken\<close> itself calls \<open>_do_request\<close>, without \<open>auth\<close>), in three parts:
  the body of the \<open>with retry:\<close> block, what follows the loop (the \<open>except\<close> clause
  and the final \<open>return result\<close>), and the function. The loop state is the local
  \<open>result\<close> (\<open>None\<close> while unbound), the headers, the object and the world.
\<close>

definition TI_attempt ::
  "(TIApi \<times> world \<Rightarrow> (exn + string option) \<times> TIApi \<times> world) \<Rightarrow> ti_json env \<Rightarrow> string
     \<Rightarrow> (string \<times> qvalue) list \<Rightarrow> bool \<Rightarrow> (string \<times> string) list option
     \<Rightarrow> ti_json response option \<times> (string \<times> string) list \<times> TIApi \<times> world
     \<Rightarrow> ti_json response option flow
          \<times> ti_json response option \<times> (string \<times> string) list \<times> TIApi \<times> world"
where
  "TI_attempt getOauthToken env url query auth bodydata = (\<lambda>(result, hs, st).
     case TI_send getOauthToken env url query auth bodydata (hs, st) of
       (Inl e, hs', st') \<Rightarrow> (Raised e, (result, hs', st'))
     | (Inr None, hs', st') \<Rightarrow> (Returned None, (None, hs', st'))
     | (Inr (Some r), hs', st') \<Rightarrow>
         if status_code r \<noteq> 200 \<and> status_code r \<noteq> 404 \<and> status_code r \<noteq> 403
            \<and> raises_for_status r
         then (Raised HTTPError, (Some r, hs', st'))
         else (Completed, (Some r, hs', st')))"

definition TI_after_loop ::
  "string
     \<Rightarrow> ti_json response option flow
          \<times> ti_json response option \<times> (string \<times> string) list \<times> TIApi \<times> world
     \<Rightarrow> (exn + ti_json response option) \<times> TIApi \<times> world"
where
  "TI_after_loop action = (\<lambda>(fl, (result, hs, (self, w))).
     case fl of
       Raised e \<Rightarrow>
         if e = HTTPError \<or> e = Timeout then
           (case except_handler action e result (\<lambda>j. map_option (map message) (errors_of j)) w of
              (r, w') \<Rightarrow> (r, (self, w')))
         else (Inl e, (self, w))
     | Returned r \<Rightarrow> (Inr r, (self, w))
     | Completed \<Rightarrow>
         (case result of
            None \<Rightarrow> (Inl UnboundLocalError, (self, w))
          | Some r \<Rightarrow> (Inr (Some r), (self, w))))"

definition TI_do_request_with ::
  "(TIApi \<times> world \<Rightarrow> (exn + string option) \<times> TIApi \<times> world) \<Rightarrow> ti_json env \<Rightarrow> string
     \<Rightarrow> (string \<times> qvalue) list option \<Rightarrow> bool \<Rightarrow> (string \<times> string) list option
     \<Rightarrow> TIApi \<times> world \<Rightarrow> (exn + ti_json response option) \<times> TIApi \<times> world"
where
  "TI_do_request_with getOauthToken env action urldata auth bodydata st =
     (let url = TI_BASE_URL @ action;
          query = (case urldata of None \<Rightarrow> [] | Some d \<Rightarrow> d);
          headers = [(''Accept'', ''application/json'')] @
            (if bodydata \<noteq> None then [(''Content-Type'', ''application/x-www-form-urlencoded'')]
             else [])
      in TI_after_loop action
           (retry_timeouts (max_attempts env)
              (TI_attempt getOauthToken env url query auth bodydata) (None, headers, st)))"

text \<open>
  \<open>TIApi._getOauthToken\<close>. Its request goes out without \<open>auth\<close>, so the token method
  passed to \<open>_do_request\<close> is never called there.
\<close>

definition token_request_body :: "TIApi \<Rightarrow> (string \<times> string) list" where
  "token_request_body self =
     [(''grant_type'', ''client_credentials''),
      (''client_id'', api_key self),
      (''client_secret'', api_secret self)]"

definition TI_getOauthToken ::
  "ti_json env \<Rightarrow> TIApi \<times> world \<Rightarrow> (exn + string option) \<times> TIApi \<times> world"
where
  "TI_getOauthToken env = (\<lambda>(self, w).
     let now = clock env (ticks w);
         w = w\<lparr>ticks := Suc (ticks w)\<rparr>;
         nextRequestBuffer = 60
     in if now < oauthValidUntil self - nextRequestBuffer then (Inr (Some (oauthAccessToken self)), (self, w))
        else
          (case TI_do_request_with (\<lambda>st. (Inr None, st)) env ''v1/oauth/accesstoken'' None False
                  (Some (token_request_body self)) (self, w) of
             (Inl e, st') \<Rightarrow> (Inl e, st')
           | (Inr None, st') \<Rightarrow> (Inr None, st')
           | (Inr (Some result), (self', w')) \<Rightarrow>
               if raises_for_status result then (Inl HTTPError, (self', w'))
               else
                 (case json result of
                    None \<Rightarrow> (Inl JSONDecodeError, (self', w'))
                  | Some (TokenObj token_type access_token expires_in) \<Rightarrow>
                      if token_type \<noteq> ''bearer'' then
                        (Inr None,
                         (self', error (Some ''TI API error: '')
                            (''unknown token type '' @ quoted token_type @ ''; expected ''
                               @ quoted ''bearer'') w'))
                      else
                        (Inr (Some access_token),
                         (self'\<lparr>oauthAccessToken := access_token,
                                 oauthValidUntil := now + expires_in\<rparr>, w'))
                  | Some _ \<Rightarrow> (Inl KeyError, (self', w')))))"

definition TI_do_request ::
  "ti_json env \<Rightarrow> string \<Rightarrow> (string \<times> qvalue) list option \<Rightarrow> bool \<Rightarrow> (string \<times> string) list option
     \<Rightarrow> TIApi \<times> world \<Rightarrow> (exn + ti_json response option) \<times> TIApi \<times> world"
where
  "TI_do_request env = TI_do_request_with (TI_getOauthToken env) env"

definition TI_api_call ::
  "ti_json env \<Rightarrow> string \<Rightarrow> (string \<times> qvalue) list option
     \<Rightarrow> TIApi \<times> world \<Rightarrow> (exn + ti_json response option) \<times> TIApi \<times> world"
where
  "TI_api_call env action urldata st = TI_do_request env action urldata True None st"

text \<open>
  \<open>TIApi._paginate_api_call\<close>. The loop has no bound of its own: it ends when a page
  request fails or a page says \<open>last\<close>. A run that never ends is the value \<open>None\<close>.
\<close>

partial_function (option) paginate_loop ::
  "ti_json env \<Rightarrow> string \<Rightarrow> (string \<times> qvalue) list option \<Rightarrow> ti_part list \<Rightarrow> nat
     \<Rightarrow> TIApi \<times> world \<Rightarrow> ((exn + ti_part list option) \<times> TIApi \<times> world) option"
where
  "paginate_loop env action urldata results page st =
     (let urldata = (case urldata of None \<Rightarrow> [] | Some d \<Rightarrow> d);
          urldata = AList.update ''size'' (QInt 100) urldata;
          urldata = AList.update ''page'' (QInt (int page)) urldata
      in case TI_api_call env action (Some urldata) st of
           (Inl e, st') \<Rightarrow> Some (Inl e, st')
         | (Inr None, st') \<Rightarrow> Some (Inr None, st')
         | (Inr (Some result), st') \<Rightarrow>
             if status_code result = 403 \<or> status_code result = 404 then Some (Inr None, st')
             else
               (case json result of
                  None \<Rightarrow> Some (Inl JSONDecodeError, st')
                | Some (PageObj content is_last) \<Rightarrow>
                    if is_last then Some (Inr (Some (results @ content)), st')
                    else paginate_loop env action (Some urldata) (results @ content) (Suc page) st'
                | Some _ \<Rightarrow> Some (Inl KeyError, st')))"

declare paginate_loop.simps [code]

definition TI_paginate_api_call ::
  "ti_json env \<Rightarrow> string \<Rightarrow> (string \<times> qvalue) list option
     \<Rightarrow> TIApi \<times> world \<Rightarrow> ((exn + ti_part list option) \<times> TIApi \<times> world) option"
where
  "TI_paginate_api_call env action urldata st = paginate_loop env action urldata [] 0 st"

text \<open>
  \<open>requests.compat.quote(s, safe="")\<close>: letters, digits and \<open>_.-~\<close> stay, every other
  byte becomes \<open>%XX\<close>.
\<close>

definition hex_digit :: "nat \<Rightarrow> char" where
  "hex_digit n = (if n < 10 then char_of (48 + n) else char_of (55 + n))"

definition quote_char :: "char \<Rightarrow> string" where
  "quote_char c =
     (let n = (of_char c :: nat) in
      if (65 \<le> n \<and> n \<le> 90) \<or> (97 \<le> n \<and> n \<le> 122) \<or> (48 \<le> n \<and> n \<le> 57)
         \<or> c \<in> set ''_.-~''
      then [c]
      else [CHR ''%'', hex_digit (n div 16), hex_digit (n mod 16)])"

definition quote :: "string \<Rightarrow> string" where
  "quote s = concat (map quote_char s)"

definition TI_product ::
  "ti_json env \<Rightarrow> string \<Rightarrow> TIApi \<times> world \<Rightarrow> (exn + ti_json option) \<times> TIApi \<times> world"
where
  "TI_product env orderablePartNumber st =
     (case TI_api_call env (''v2/store/products/'' @ quote orderablePartNumber)
             (Some [(''exclude-evms'', QStr ''true''), (''currency'', QStr (api_currency (fst st)))]) st of
        (Inl e, st') \<Rightarrow> (Inl e, st')
      | (Inr None, st') \<Rightarrow> (Inr None, st')
      | (Inr (Some result), st') \<Rightarrow>
          if status_code result = 403 \<or> status_code result = 404 then (Inr None, st')
          else
            (case json result of
               None \<Rightarrow> (Inl JSONDecodeError, st')
             | Some j \<Rightarrow> (Inr (Some j), st')))"

definition TI_products ::
  "ti_json env \<Rightarrow> string \<Rightarrow> TIApi \<times> world \<Rightarrow> ((exn + ti_part list option) \<times> TIApi \<times> world) option"
where
  "TI_products env genericPartNumber st =
     TI_paginate_api_call env ''v2/store/products''
       (Some [(''gpn'', QStr genericPartNumber), (''exclude-evms'', QStr ''true''),
              (''currency'', QStr (api_currency (fst st)))]) st"

text \<open>The loop of \<open>_searchForExactPart\<close> over a non-empty \<open>errors\<close> array: whether it
  holds the code for an unknown part number.\<close>

fun exact_opn_missing :: "ti_error list \<Rightarrow> exn + bool" where
  "exact_opn_missing [] = Inr False"
| "exact_opn_missing (e # es) =
     (case errorCode e of
        None \<Rightarrow> Inl KeyError
      | Some code \<Rightarrow> if code = ''ERR-TICOM-INV-API-1002'' then Inr True else exact_opn_missing es)"

definition TI_searchForExactPart ::
  "ti_json env \<Rightarrow> string \<Rightarrow> TIApi \<times> world \<Rightarrow> (exn + ti_json list option) \<times> TIApi \<times> world"
where
  "TI_searchForExactPart env search_term st =
     (case TI_product env search_term st of
        (Inl e, st') \<Rightarrow> (Inl e, st')
      | (Inr None, st') \<Rightarrow> (Inr None, st')
      | (Inr (Some ti_part), st') \<Rightarrow>
          (case errors_of ti_part of
             None \<Rightarrow> (Inr (Some [ti_part]), st')
           | Some errors \<Rightarrow>
               if length errors \<noteq> 0 then
                 (case exact_opn_missing errors of
                    Inl e \<Rightarrow> (Inl e, st')
                  | Inr True \<Rightarrow> (Inr (Some []), st')
                  | Inr False \<Rightarrow> (Inr (Some [ti_part]), st'))
               else (Inr (Some [ti_part]), st')))"

text \<open>\<open>get_api_part\<close> on a JSON object: one without the product keys raises at the
  first of them.\<close>

definition TI_get_api_part_json :: "string \<Rightarrow> ti_json \<Rightarrow> exn + ApiPart" where
  "TI_get_api_part_json target j =
     (case j of PartObj p \<Rightarrow> Inr (TI_get_api_part target p) | _ \<Rightarrow> Inl KeyError)"

text \<open>\<open>list(map(f, xs))\<close> for an \<open>f\<close> that can raise.\<close>

fun map_raise :: "('a \<Rightarrow> exn + 'b) \<Rightarrow> 'a list \<Rightarrow> exn + 'b list" where
  "map_raise f [] = Inr []"
| "map_raise f (x # xs) =
     (case f x of
        Inl e \<Rightarrow> Inl e
      | Inr y \<Rightarrow> (case map_raise f xs of Inl e \<Rightarrow> Inl e | Inr ys \<Rightarrow> Inr (y # ys)))"

text \<open>
  \<open>TI.search\<close>. The entries of a page's \<open>content\<close> are product objects; \<open>None\<close> is a run
  whose pagination never ends.
\<close>

definition TI_search ::
  "ti_json env \<Rightarrow> string \<Rightarrow> TIApi \<times> world \<Rightarrow> ((exn + ApiPart list \<times> nat) \<times> TIApi \<times> world) option"
where
  "TI_search env search_term st =
     (case TI_searchForExactPart env search_term st of
        (Inl e, st') \<Rightarrow> Some (Inl e, st')
      | (Inr ti_parts, st') \<Rightarrow>
          (case (if ti_parts = Some [] then
                   (case TI_products env search_term st' of
                      None \<Rightarrow> None
                    | Some (Inl e, st'') \<Rightarrow> Some (Inl e, st'')
                    | Some (Inr None, st'') \<Rightarrow> Some (Inr None, st'')
                    | Some (Inr (Some content), st'') \<Rightarrow> Some (Inr (Some (map PartObj content)), st''))
                 else Some (Inr ti_parts, st')) of
             None \<Rightarrow> None
           | Some (Inl e, st'') \<Rightarrow> Some (Inl e, st'')
           | Some (Inr None, st'') \<Rightarrow> Some (Inr ([], 0), st'')
           | Some (Inr (Some ti_parts), st'') \<Rightarrow>
               (case map_raise (TI_get_api_part_json (api_currency (fst st''))) ti_parts of
                  Inl e \<Rightarrow> Some (Inl e, st'')
                | Inr parts \<Rightarrow> Some (Inr (parts, length ti_parts), st''))))"

section \<open>The registry and the dispatcher (\<open>suppliers/__init__.py\<close>)\<close>

text \<open>
  The module's globals, each \<open>None\<close> until it is set. A supplier object has type \<open>'o\<close>,
  a company of the inventory has type \<open>'c\<close>; the dicts are keyed by supplier id.
\<close>

record ('o, 'c) globals =
  SUPPLIERS :: "(string \<times> 'o \<times> 'c) list option"
  SUPPLIER_COMPANIES :: "(string \<times> 'c) list option"
  AVAILABLE_SUPPLIERS :: "string list option"
  SUPPLIER_OBJECTS :: "(string \<times> 'o) list option"

text \<open>
  A handle returned by \<open>thread_pool.apply_async(supplier_object.search, (search_term,))\<close>:
  the call that was handed to the pool. The pool runs it; nothing else calls a supplier's
  \<open>search\<close>.
\<close>

datatype 'o async_result = ApplyAsync 'o string

text \<open>
  The first lines of \<open>search\<close>: \<open>_SUPPLIERS\<close> is built on the first call. The two
  \<open>keys()\<close> views are compared as sets; the values are paired by position.
\<close>

definition init_SUPPLIERS :: "('o, 'c) globals \<Rightarrow> exn + ('o, 'c) globals \<times> (string \<times> 'o \<times> 'c) list" where
  "init_SUPPLIERS g =
     (case SUPPLIERS g of
        Some suppliers \<Rightarrow> Inr (g, suppliers)
      | None \<Rightarrow>
          (case SUPPLIER_COMPANIES g of
             None \<Rightarrow> Inl AssertionError
           | Some companies \<Rightarrow>
               (case SUPPLIER_OBJECTS g of
                  None \<Rightarrow> Inl AttributeError
                | Some objects \<Rightarrow>
                    if set (map fst objects) \<noteq> set (map fst companies) then Inl AssertionError
                    else
                      (let suppliers = dict_of (zip (map fst objects)
                                                    (zip (map snd objects) (map snd companies)))
                       in Inr (g\<lparr>SUPPLIERS := Some suppliers\<rparr>, suppliers)))))"

text \<open>
  \<open>search\<close>. \<open>config_name\<close> is \<open>SUPPLIERS_CONFIG.name\<close>, defined in \<open>config.py\<close>.
  The result is the exception or the returned value (\<open>None\<close>, or the list of handles in
  the order in which the calls were handed to the pool), the globals and the messages.
\<close>

definition search ::
  "string \<Rightarrow> ('o, 'c) globals \<Rightarrow> string \<Rightarrow> string option \<Rightarrow> bool
     \<Rightarrow> (exn + ('c \<times> 'o async_result) list option) \<times> ('o, 'c) globals \<times> log_entry list"
where
  "search config_name g search_term supplier_id only_supplier =
     (case init_SUPPLIERS g of
        Inl e \<Rightarrow> (Inl e, g, [])
      | Inr (g', SUPPLIERS') \<Rightarrow>
          (let suppliers = map snd SUPPLIERS';
               handles = (\<lambda>suppliers.
                 map (\<lambda>(supplier_object, api_company).
                        (api_company, ApplyAsync supplier_object search_term)) suppliers)
           in case supplier_id of
                None \<Rightarrow> (Inr (Some (handles suppliers)), g', [])
              | Some sid \<Rightarrow>
                  if sid = [] then (Inr (Some (handles suppliers)), g', [])
                  else
                    (case map_of SUPPLIERS' sid of
                       Some supplier \<Rightarrow>
                         if only_supplier then (Inr (Some (handles [supplier])), g', [])
                         else (Inr (Some (handles (supplier # remove1 supplier suppliers))), g', [])
                     | None \<Rightarrow>
                         (Inr None, g',
                          [LogError None (''supplier id '' @ quoted sid @ '' not defined in ''
                                            @ config_name)]))))"

text \<open>
  What importing a supplier module gives: an exception, or the module's values, of which
  only this is read: whether a value is the class \<open>Supplier\<close> itself, a proper subclass
  of it (a class of type \<open>'cls\<close>), or anything else.
\<close>

datatype 'cls pyval = SupplierBase | SupplierSubclass 'cls | OtherValue

datatype 'cls import_result = Raises exn | Module "'cls pyval list"

definition supplier_classes_of :: "'cls pyval list \<Rightarrow> 'cls list" where
  "supplier_classes_of vals = concat (map (\<lambda>v. case v of SupplierSubclass cls \<Rightarrow> [cls] | _ \<Rightarrow> []) vals)"

text \<open>\<open>s.split(sep, 1)[-1]\<close>: what follows the first occurrence of \<open>sep\<close>, or \<open>s\<close>.\<close>

fun after_first :: "string \<Rightarrow> string \<Rightarrow> string option" where
  "after_first sep [] = (if sep = [] then Some [] else None)"
| "after_first sep (c # cs) =
     (if take (length sep) (c # cs) = sep then Some (drop (length sep) (c # cs))
      else after_first sep cs)"

definition split1_last :: "string \<Rightarrow> string \<Rightarrow> string" where
  "split1_last sep s = (case after_first sep s of Some rest \<Rightarrow> rest | None \<Rightarrow> s)"

text \<open>Decimal digits of a number, as \<open>f"{n}"\<close> prints them.\<close>

fun str_nat :: "nat \<Rightarrow> string" where
  "str_nat n = (if n < 10 then [char_of (48 + n)] else str_nat (n div 10) @ [char_of (48 + n mod 10)])"

declare str_nat.simps [simp del]

text \<open>\<open>path.stem\<close> of a file that \<open>glob("supplier_*.py")\<close> finds, from what the \<open>*\<close> matched.\<close>

definition module_name_of :: "string \<Rightarrow> string" where
  "module_name_of matched = ''supplier_'' @ matched"

text \<open>
  The loop of \<open>get_supplier_classes\<close> over the files that \<open>glob("supplier_*.py")\<close>
  finds, each given by what the \<open>*\<close> matched: the module name is \<open>supplier_\<close> followed
  by it.
  \<^item> \<open>module_name in locals()\<close>: the only local variable of the function whose name
    starts with \<open>supplier_\<close> is \<open>supplier_classes\<close>, which is bound from the first
    module on that was imported without an exception (\<open>bound\<close> below). For the module
    \<open>supplier_classes\<close> the test then holds and \<open>importlib.reload\<close> is called on a
    list, which raises \<open>TypeError\<close>.
  \<^item> \<open>import_module\<close> is what \<open>importlib.import_module\<close> gives for the module name.
  \<^item> \<open>instantiate\<close> is the call \<open>supplier_classes[0]()\<close>, which can raise; it is
    outside the \<open>try\<close>.
  An exception that the \<open>except ImportError\<close> clause does not catch, or that is raised
  outside the \<open>try\<close>, ends the loop and the function.
\<close>

fun discover ::
  "(string \<Rightarrow> 'cls import_result) \<Rightarrow> ('cls \<Rightarrow> exn + 'o) \<Rightarrow> string list \<Rightarrow> bool
     \<Rightarrow> (string \<times> 'o) list \<Rightarrow> log_entry list
     \<Rightarrow> (exn + (string \<times> 'o) list) \<times> log_entry list"
where
  "discover import_module instantiate [] bound available_suppliers messages =
     (Inr available_suppliers, messages)"
| "discover import_module instantiate (matched # paths) bound available_suppliers messages =
     (let module_name = module_name_of matched in
      case (if module_name = ''supplier_classes'' \<and> bound then Raises TypeError
            else import_module module_name) of
        Raises (ImportError e) \<Rightarrow>
          discover import_module instantiate paths bound available_suppliers
            (messages @ [LogError None (''failed to load supplier module '' @ quoted module_name
                                     @ '' with '' @ e)])
      | Raises e \<Rightarrow> (Inl e, messages)
      | Module vals \<Rightarrow>
          (let supplier_classes = supplier_classes_of vals in
           if length supplier_classes \<noteq> 1 then
             (let suffix = (if supplier_classes \<noteq> [] then ''multiple Supplier classes''
                            else ''no Supplier class'')
              in discover import_module instantiate paths True available_suppliers
                   (messages @ [LogError None (''failed to load supplier module '' @ quoted module_name
                                            @ '' ('' @ suffix @ '' defined)'')]))
           else
             (case instantiate (hd supplier_classes) of
                Inl e \<Rightarrow> (Inl e, messages)
              | Inr supplier \<Rightarrow>
                  discover import_module instantiate paths True
                    (AList.update (split1_last ''supplier_'' module_name) supplier available_suppliers)
                    messages)))"

text \<open>
  \<open>get_supplier_classes\<close>. \<open>load_suppliers_config\<close> is defined in \<open>config.py\<close>; it is
  a parameter, which returns the loaded suppliers or raises. \<open>_SUPPLIER_OBJECTS\<close> is set
  to the empty dict before the discovery, and stays so when an exception escapes. The
  messages are those that \<open>get_supplier_classes\<close> itself writes.
\<close>

definition get_supplier_classes ::
  "(string \<Rightarrow> 'cls import_result) \<Rightarrow> ('cls \<Rightarrow> exn + 'o)
     \<Rightarrow> ((string \<times> 'o) list \<Rightarrow> exn + (string \<times> 'o) list) \<Rightarrow> string list
     \<Rightarrow> ('o, 'c) globals \<Rightarrow> (exn + (string \<times> 'o) list) \<times> ('o, 'c) globals \<times> log_entry list"
where
  "get_supplier_classes import_module instantiate load_suppliers_config paths g =
     (case SUPPLIER_OBJECTS g of
        Some objects \<Rightarrow> (Inr objects, g, [])
      | None \<Rightarrow>
          (case discover import_module instantiate paths False [] [] of
             (Inl e, messages) \<Rightarrow> (Inl e, g\<lparr>SUPPLIER_OBJECTS := Some []\<rparr>, messages)
           | (Inr available_suppliers, messages) \<Rightarrow>
               (case load_suppliers_config available_suppliers of
                  Inl e \<Rightarrow> (Inl e, g\<lparr>SUPPLIER_OBJECTS := Some []\<rparr>, messages)
                | Inr loaded_suppliers \<Rightarrow>
                    (let available = length available_suppliers;
                         loaded = length loaded_suppliers;
                         messages = (if available > loaded then
                                  messages @ [LogHint (''only loaded '' @ str_nat loaded @ '' of ''
                                                    @ str_nat available @ '' available supplier modules'')]
                                else messages)
                     in (Inr loaded_suppliers,
                         g\<lparr>AVAILABLE_SUPPLIERS := Some (map fst available_suppliers),
                           SUPPLIER_OBJECTS := Some loaded_suppliers\<rparr>,
                         messages)))))"

section \<open>Notions used to state the properties\<close>

text \<open>
  The unit prices of the upstream breaks at or below the minimum order quantity, and the
  upstream breaks strictly above it.
\<close>

definition below_prices :: "int \<Rightarrow> (int \<times> rat) list \<Rightarrow> rat set" where
  "below_prices m ups = set (map snd (filter (\<lambda>(q, p). q \<le> m) ups))"

definition above_breaks :: "int \<Rightarrow> (int \<times> rat) list \<Rightarrow> (int \<times> rat) list" where
  "above_breaks m ups = filter (\<lambda>(q, p). m < q) ups"

text \<open>
  The invariant of the canonical part record: \<open>sku\<close> and \<open>mpn\<close> not both empty, a
  non-negative \<open>quantity_available\<close>, and strictly positive keys of \<open>price_breaks\<close>.
\<close>

definition record_invariant :: "ApiPart \<Rightarrow> bool" where
  "record_invariant r \<longleftrightarrow>
     \<not> (SKU r = [] \<and> MPN r = []) \<and> 0 \<le> quantity_available r
     \<and> list_all (\<lambda>q. 0 < q) (map fst (price_breaks r))"

text \<open>The handles for a list of suppliers, in its order: one per supplier.\<close>

definition handles_of :: "string \<Rightarrow> ('o \<times> 'c) list \<Rightarrow> ('c \<times> 'o async_result) list" where
  "handles_of search_term suppliers =
     map (\<lambda>(supplier_object, api_company). (api_company, ApplyAsync supplier_object search_term)) suppliers"

text \<open>
  To state what the discovery does. The class of a module that, imported, defines
  exactly one \<open>Supplier\<close> subclass; the (id, instance) pairs of those modules among the
  files found, for the constructors that return an instance; the message for a module
  that is skipped. Whether the loop comes to the file \<open>supplier_classes.py\<close> after a
  module that was imported without an exception (\<open>bound\<close> says whether one was
  imported before the files of the list).
\<close>

definition usable_class :: "(string \<Rightarrow> 'cls import_result) \<Rightarrow> string \<Rightarrow> 'cls option" where
  "usable_class import_module module_name =
     (case import_module module_name of
        Raises e \<Rightarrow> None
      | Module vals \<Rightarrow> (case supplier_classes_of vals of [cls] \<Rightarrow> Some cls | _ \<Rightarrow> None))"

definition usable_modules ::
  "(string \<Rightarrow> 'cls import_result) \<Rightarrow> ('cls \<Rightarrow> exn + 'o) \<Rightarrow> string list \<Rightarrow> (string \<times> 'o) list"
where
  "usable_modules import_module instantiate paths =
     List.map_filter
       (\<lambda>matched.
          case usable_class import_module (module_name_of matched) of
            None \<Rightarrow> None
          | Some cls \<Rightarrow>
              (case instantiate cls of Inl e \<Rightarrow> None | Inr supplier \<Rightarrow> Some (matched, supplier)))
       paths"

definition skip_message :: "(string \<Rightarrow> 'cls import_result) \<Rightarrow> string \<Rightarrow> log_entry" where
  "skip_message import_module module_name =
     LogError None
       (''failed to load supplier module '' @ quoted module_name @
        (case import_module module_name of
           Raises e \<Rightarrow> '' with '' @ str_exn e
         | Module vals \<Rightarrow>
             '' ('' @ (if supplier_classes_of vals \<noteq> [] then ''multiple Supplier classes''
                       else ''no Supplier class'') @ '' defined)''))"

fun reload_clash :: "(string \<Rightarrow> 'cls import_result) \<Rightarrow> string list \<Rightarrow> bool \<Rightarrow> bool" where
  "reload_clash import_module [] bound = False"
| "reload_clash import_module (matched # paths) bound =
     ((matched = ''classes'' \<and> bound) \<or>
      reload_clash import_module paths
        (bound \<or> (case import_module (module_name_of matched) of Module vals \<Rightarrow> True | Raises e \<Rightarrow> False)))"

text \<open>The request that \<open>_getOauthToken\<close> sends to the token endpoint.\<close>

definition token_request :: "TIApi \<Rightarrow> request" where
  "token_request self =
     \<lparr> rq_method = POST,
       rq_url = TI_BASE_URL @ ''v1/oauth/accesstoken'',
       rq_query = [],
       rq_headers = [(''Accept'', ''application/json''),
                     (''Content-Type'', ''application/x-www-form-urlencoded'')],
       rq_data = Some (token_request_body self) \<rparr>"

text \<open>The request that \<open>FEApi.lookup\<close> sends, and the \<open>urldata\<close> and the action of
  the request of \<open>TIApi.product\<close>.\<close>

definition lookup_request :: "string \<Rightarrow> string \<Rightarrow> request" where
  "lookup_request key search_term =
     \<lparr> rq_method = GET,
       rq_url = FE_BASE_URL @ ''v1/pim-future/lookup'',
       rq_query = [(''part_number'', QStr search_term), (''lookup_type'', QStr ''contains'')],
       rq_headers = [(''Accept'', ''application/json''), (''x-orbweaver-licensekey'', key)],
       rq_data = None \<rparr>"

definition product_action :: "string \<Rightarrow> string" where
  "product_action orderablePartNumber = ''v2/store/products/'' @ quote orderablePartNumber"

definition product_urldata :: "TIApi \<Rightarrow> (string \<times> qvalue) list option" where
  "product_urldata self = Some [(''exclude-evms'', QStr ''true''), (''currency'', QStr (api_currency self))]"

text \<open>
  To state what the pagination does. The \<open>urldata\<close> of the request for page \<open>n\<close>: the
  caller's, with \<open>size\<close> set to 100 and \<open>page\<close> to \<open>n\<close>. The state before that
  request, when the requests for the pages \<open>0\<close> to \<open>n - 1\<close> have been made in this
  order, and what the request returns. A page counts as read when its request returns a
  response with a status other than 403 and 404 whose JSON is a page object; it then has
  items and says whether it is the last. A page request counts as failed when it returns
  \<open>None\<close> or a response with status 403 or 404.
\<close>

definition page_urldata :: "(string \<times> qvalue) list option \<Rightarrow> nat \<Rightarrow> (string \<times> qvalue) list" where
  "page_urldata urldata page =
     AList.update ''page'' (QInt (int page))
       (AList.update ''size'' (QInt 100) (case urldata of None \<Rightarrow> [] | Some d \<Rightarrow> d))"

primrec page_state ::
  "ti_json env \<Rightarrow> string \<Rightarrow> (string \<times> qvalue) list option \<Rightarrow> TIApi \<times> world \<Rightarrow> nat \<Rightarrow> TIApi \<times> world"
where
  "page_state env action urldata st 0 = st"
| "page_state env action urldata st (Suc n) =
     snd (TI_api_call env action (Some (page_urldata urldata n)) (page_state env action urldata st n))"

definition page_result ::
  "ti_json env \<Rightarrow> string \<Rightarrow> (string \<times> qvalue) list option \<Rightarrow> TIApi \<times> world \<Rightarrow> nat
     \<Rightarrow> exn + ti_json response option"
where
  "page_result env action urldata st n =
     fst (TI_api_call env action (Some (page_urldata urldata n)) (page_state env action urldata st n))"

definition page_read ::
  "ti_json env \<Rightarrow> string \<Rightarrow> (string \<times> qvalue) list option \<Rightarrow> TIApi \<times> world \<Rightarrow> nat
     \<Rightarrow> (ti_part list \<times> bool) option"
where
  "page_read env action urldata st n =
     (case page_result env action urldata st n of
        Inr (Some r) \<Rightarrow>
          if status_code r = 403 \<or> status_code r = 404 then None
          else (case json r of Some (PageObj content is_last) \<Rightarrow> Some (content, is_last) | _ \<Rightarrow> None)
      | _ \<Rightarrow> None)"

definition page_items ::
  "ti_json env \<Rightarrow> string \<Rightarrow> (string \<times> qvalue) list option \<Rightarrow> TIApi \<times> world \<Rightarrow> nat \<Rightarrow> ti_part list"
where
  "page_items env action urldata st n =
     (case page_read env action urldata st n of Some (content, is_last) \<Rightarrow> content | None \<Rightarrow> [])"

definition page_failed ::
  "ti_json env \<Rightarrow> string \<Rightarrow> (string \<times> qvalue) list option \<Rightarrow> TIApi \<times> world \<Rightarrow> nat \<Rightarrow> bool"
where
  "page_failed env action urldata st n =
     (case page_result env action urldata st n of
        Inr None \<Rightarrow> True
      | Inr (Some r) \<Rightarrow> status_code r = 403 \<or> status_code r = 404
      | Inl e \<Rightarrow> False)"

section \<open>Concrete inputs\<close>

text \<open>An offer with the price breaks 1, 10 and 100 and the minimum order quantity 10.\<close>

definition offer_1_10_100 :: fe_part where
  "offer_1_10_100 =
     \<lparr> fe_part_attributes = [], fe_quantity_minimum = 10, fe_quantity_available = 5,
       fe_pricing = [(1, 2), (10, 3 / 2), (100, 6 / 5)], fe_images = [], fe_documents = [],
       fe_web_url = ''https://example.org/p'', fe_seller_part_number = ''S1'', fe_mpn = ''M1'',
       fe_currency_code = ''USD'' \<rparr>"

text \<open>An offer and a product as a remote service can send them: no part numbers, a
  negative stock, a price break at quantity 0.\<close>

definition unchecked_offer :: fe_part where
  "unchecked_offer =
     \<lparr> fe_part_attributes = [], fe_quantity_minimum = 0, fe_quantity_available = - 1,
       fe_pricing = [(0, 1)], fe_images = [], fe_documents = [],
       fe_web_url = [], fe_seller_part_number = [], fe_mpn = [],
       fe_currency_code = ''USD'' \<rparr>"

definition unchecked_product :: ti_part where
  "unchecked_product =
     \<lparr> ti_description = [], ti_buyNowUrl = [], ti_tiPartNumber = [], ti_quantity = - 1,
       ti_packageCarrier = [],
       ti_pricing = [\<lparr> pl_currency = ''USD'', pl_priceBreaks = [(0, 1)] \<rparr>],
       ti_errors = None \<rparr>"

text \<open>A price list in EUR, one in USD, and a well-formed product priced in both.\<close>

definition eur_list :: ti_price_list where
  "eur_list = \<lparr> pl_currency = ''EUR'', pl_priceBreaks = [(1, 9 / 10), (100, 7 / 10)] \<rparr>"

definition usd_list :: ti_price_list where
  "usd_list = \<lparr> pl_currency = ''USD'', pl_priceBreaks = [(1, 1), (100, 4 / 5)] \<rparr>"

definition product_eur_usd :: ti_part where
  "product_eur_usd =
     \<lparr> ti_description = ''Op amp'', ti_buyNowUrl = ''https://example.org/buy'',
       ti_tiPartNumber = ''OPA333'', ti_quantity = 12, ti_packageCarrier = ''Tape'',
       ti_pricing = [eur_list, usd_list], ti_errors = None \<rparr>"

text \<open>
  The globals after \<open>get_supplier_classes\<close> and \<open>setup_supplier_companies\<close> with two
  suppliers loaded, objects 1 and 2 with the companies 10 and 20; what the first
  \<open>search\<close> makes of them.
\<close>

definition two_loaded :: "(string \<times> nat \<times> nat) list" where
  "two_loaded = [(''fe'', 1, 10), (''ti'', 2, 20)]"

definition two_suppliers :: "(nat, nat) globals" where
  "two_suppliers =
     \<lparr> SUPPLIERS = None,
       SUPPLIER_COMPANIES = Some [(''fe'', 10), (''ti'', 20)],
       AVAILABLE_SUPPLIERS = Some [''fe'', ''ti''],
       SUPPLIER_OBJECTS = Some [(''fe'', 1), (''ti'', 2)] \<rparr>"

definition two_suppliers_ready :: "(nat, nat) globals" where
  "two_suppliers_ready = two_suppliers\<lparr>SUPPLIERS := Some two_loaded\<rparr>"

text \<open>The globals before anything is loaded.\<close>

definition no_globals :: "(nat, nat) globals" where
  "no_globals =
     \<lparr> SUPPLIERS = None, SUPPLIER_COMPANIES = None, AVAILABLE_SUPPLIERS = None,
       SUPPLIER_OBJECTS = None \<rparr>"

text \<open>
  Five supplier modules: two sound ones, one whose import raises \<open>ImportError\<close>, one
  without a \<open>Supplier\<close> subclass and one with two. Constructors that return the
  instance (identified with the number of its class). A configuration that loads every
  supplier but \<open>ti\<close>.
\<close>

definition five_modules :: "string \<Rightarrow> nat import_result" where
  "five_modules module_name =
     (if module_name = ''supplier_fe'' then Module [OtherValue, SupplierBase, SupplierSubclass 11]
      else if module_name = ''supplier_ti'' then Module [SupplierBase, SupplierSubclass 12]
      else if module_name = ''supplier_none'' then Module [SupplierBase, OtherValue]
      else if module_name = ''supplier_two'' then Module [SupplierSubclass 13, SupplierSubclass 14]
      else Raises (ImportError ''No module named digikey''))"

definition five_paths :: "string list" where
  "five_paths = [''dk'', ''fe'', ''none'', ''ti'', ''two'']"

definition constructed :: "nat \<Rightarrow> exn + nat" where
  "constructed cls = Inr cls"

definition all_but_ti :: "(string \<times> nat) list \<Rightarrow> exn + (string \<times> nat) list" where
  "all_but_ti available = Inr (filter (\<lambda>(supplier_id, supplier). supplier_id \<noteq> ''ti'') available)"

text \<open>
  A module whose import raises an exception that is not an \<open>ImportError\<close>, before a
  sound one; a constructor that raises; modules that are all sound, one of them
  \<open>supplier_classes\<close>.
\<close>

definition syntax_error_module :: "string \<Rightarrow> nat import_result" where
  "syntax_error_module module_name =
     (if module_name = ''supplier_bad'' then Raises (OtherException ''SyntaxError'')
      else Module [SupplierBase, SupplierSubclass 11])"

definition failing_constructor :: "nat \<Rightarrow> exn + nat" where
  "failing_constructor cls = Inl (OtherException ''ValueError'')"

definition sound_modules :: "string \<Rightarrow> nat import_result" where
  "sound_modules module_name = Module [SupplierBase, SupplierSubclass 11]"

text \<open>
  Environments of the adapters: a service that never answers in time, one that answers
  every request with status 500 and a body that is not JSON, and a Future Electronics
  service that answers every lookup with no offers. Three attempts per request.
\<close>

definition never_in_time :: "'j env" where
  "never_in_time = \<lparr> max_attempts = 3, net = (\<lambda>n rq. NetTimeout), clock = (\<lambda>n. 0) \<rparr>"

definition always_500 :: "'j env" where
  "always_500 =
     \<lparr> max_attempts = 3,
       net = (\<lambda>n rq. NetResponse \<lparr> status_code = 500, json = None \<rparr>),
       clock = (\<lambda>n. 0) \<rparr>"

definition no_offers :: "fe_json env" where
  "no_offers =
     \<lparr> max_attempts = 3,
       net = (\<lambda>n rq. NetResponse \<lparr> status_code = 200,
                                       json = Some \<lparr> fe_offers = Some [], fe_errors = None \<rparr> \<rparr>),
       clock = (\<lambda>n. 0) \<rparr>"

definition quiet_world :: world where
  "quiet_world = \<lparr> sent = [], ticks = 0, logged = [] \<rparr>"

text \<open>
  Texas Instruments services. Each answers the first request, for the token, with a
  bearer token valid for an hour, and the second, for the exact part, with status 200 and
  the error code of an unknown part number (\<open>ti_unknown_part\<close>), or with status 404
  (\<open>ti_exact_404\<close>). \<open>ti_unknown_part\<close> answers the third request, for the first page,
  with an empty last page; \<open>ti_pages_404\<close> answers it with status 404.
\<close>

definition token_response :: "ti_json response" where
  "token_response = \<lparr> status_code = 200, json = Some (TokenObj ''bearer'' ''tok'' 3600) \<rparr>"

definition unknown_part_response :: "ti_json response" where
  "unknown_part_response =
     \<lparr> status_code = 200,
       json = Some (OtherObj (Some [\<lparr> errorCode = Some ''ERR-TICOM-INV-API-1002'',
                                      message = Some ''not found'' \<rparr>])) \<rparr>"

definition ti_exact_404 :: "ti_json env" where
  "ti_exact_404 =
     \<lparr> max_attempts = 3,
       net = (\<lambda>n rq. if n = 0 then NetResponse token_response
                      else NetResponse \<lparr> status_code = 404, json = None \<rparr>),
       clock = (\<lambda>n. 5) \<rparr>"

definition ti_unknown_part :: "ti_json env" where
  "ti_unknown_part =
     \<lparr> max_attempts = 3,
       net = (\<lambda>n rq. if n = 0 then NetResponse token_response
                      else if n = 1 then NetResponse unknown_part_response
                      else NetResponse \<lparr> status_code = 200, json = Some (PageObj [] True) \<rparr>),
       clock = (\<lambda>n. 5) \<rparr>"

definition ti_pages_404 :: "ti_json env" where
  "ti_pages_404 =
     \<lparr> max_attempts = 3,
       net = (\<lambda>n rq. if n = 0 then NetResponse token_response
                      else if n = 1 then NetResponse unknown_part_response
                      else NetResponse \<lparr> status_code = 404, json = None \<rparr>),
       clock = (\<lambda>n. 5) \<rparr>"

definition ti_start :: "TIApi \<times> world" where
  "ti_start = (TIApi_init ''id'' ''secret'' ''EUR'', quiet_world)"

text \<open>The API object and the world after the token of \<open>token_response\<close> has been
  fetched from the start, the clock reading 5.\<close>

definition api_with_token :: TIApi where
  "api_with_token =
     \<lparr> api_key = ''id'', api_secret = ''secret'', api_currency = ''EUR'',
       oauthAccessToken = ''tok'', oauthValidUntil = 5 + 3600 \<rparr>"

definition world_after_token :: world where
  "world_after_token =
     \<lparr> sent = [token_request (TIApi_init ''id'' ''secret'' ''EUR'')], ticks = 1, logged = [] \<rparr>"

text \<open>
  Two services that answer the token request and then the first page with one product,
  not the last. \<open>two_pages\<close> answers the second page with another product and says it is
  the last; \<open>second_page_404\<close> answers it with status 404.
\<close>

definition other_product :: ti_part where
  "other_product = product_eur_usd\<lparr>ti_tiPartNumber := ''OPA334''\<rparr>"

definition two_pages :: "ti_json env" where
  "two_pages =
     \<lparr> max_attempts = 3,
       net = (\<lambda>n rq.
         if n = 0 then NetResponse token_response
         else if n = 1 then
           NetResponse \<lparr> status_code = 200, json = Some (PageObj [product_eur_usd] False) \<rparr>
         else NetResponse \<lparr> status_code = 200, json = Some (PageObj [other_product] True) \<rparr>),
       clock = (\<lambda>n. 5) \<rparr>"

definition second_page_404 :: "ti_json env" where
  "second_page_404 =
     \<lparr> max_attempts = 3,
       net = (\<lambda>n rq.
         if n = 0 then NetResponse token_response
         else if n = 1 then
           NetResponse \<lparr> status_code = 200, json = Some (PageObj [product_eur_usd] False) \<rparr>
         else NetResponse \<lparr> status_code = 404, json = None \<rparr>),
       clock = (\<lambda>n. 5) \<rparr>"

definition gpn_query :: "(string \<times> qvalue) list option" where
  "gpn_query =
     Some [(''gpn'', QStr ''OPA33''), (''exclude-evms'', QStr ''true''), (''currency'', QStr ''EUR'')]"

section \<open>What \<open>search\<close> returns when the lookup fails\<close>

lemma FE_do_request_http_error:
  assumes pos: "0 < max_attempts env"
      and net: "net env (length (sent w)) (lookup_request key search_term) = NetResponse r"
      and err: "raises_for_status r"
      and body: "json r = None"
  shows "FE_do_request env key ''v1/pim-future/lookup''
           (Some [(''part_number'', QStr search_term), (''lookup_type'', QStr ''contains'')]) w =
         (Inr None,
          w\<lparr>sent := sent w @ [lookup_request key search_term],
            logged := logged w @
              [LogError (Some ''TI API error: '')
                 (quoted ''v1/pim-future/lookup'' @ '' action failed with '' @ quoted ''HTTPError'')]\<rparr>)"
proof -
  obtain n where n: "max_attempts env = Suc n"
    using pos by (cases "max_attempts env") auto
  have a: "FE_attempt env (lookup_request key search_term) (None, w) =
             (Raised HTTPError, (Some r, w\<lparr>sent := sent w @ [lookup_request key search_term]\<rparr>))"
    using net err by (simp add: FE_attempt_def requests_call_def)
  have "retry_timeouts (max_attempts env) (FE_attempt env (lookup_request key search_term)) (None, w) =
          (Raised HTTPError, (Some r, w\<lparr>sent := sent w @ [lookup_request key search_term]\<rparr>))"
    by (simp add: n a)
  then show ?thesis
    using body
    by (simp add: FE_do_request_def lookup_request_def [symmetric] FE_after_loop_def
        except_handler_def error_def Let_def)
qed

text \<open>
  Claim C1, as amended. \<open>search\<close> has no failure value. When the lookup of the API
  object fails, \<open>search\<close> of either adapter returns the empty record sequence with the
  count 0, which is also what it returns when the lookup succeeds with zero matches:
  \<^item> Future Electronics: when the service answers the lookup with an error status (and a
    body that is not JSON), and whenever \<open>_do_request\<close> returns \<open>None\<close>; and when the
    lookup returns no offers;
  \<^item> Texas Instruments: when the request for the exact part returns \<open>None\<close> or a
    response with status 403 or 404; when the exact part is unknown and the paginated
    lookup returns \<open>None\<close>; and when the exact part is unknown and the paginated lookup
    returns no product.
\<close>

theorem search_failure_is_empty_result:
  "(0 < max_attempts fe_env
      \<and> net fe_env (length (sent w)) (lookup_request key search_term) = NetResponse r
      \<and> raises_for_status r \<and> json r = None \<longrightarrow>
      fst (FE_search fe_env key search_term w) = Inr ([], 0)) \<and>
   (FE_do_request fe_env key ''v1/pim-future/lookup''
        (Some [(''part_number'', QStr search_term), (''lookup_type'', QStr ''contains'')]) w
      = (Inr None, w') \<longrightarrow>
      FE_search fe_env key search_term w = (Inr ([], 0), w')) \<and>
   (\<forall>result. FE_lookup fe_env key search_term ''contains'' w = (Inr (Some result), w')
        \<and> fe_offers result = Some [] \<longrightarrow>
      FE_search fe_env key search_term w = (Inr ([], 0), w')) \<and>
   (TI_api_call ti_env (product_action search_term) (product_urldata (fst st)) st = (Inr None, st') \<longrightarrow>
      TI_search ti_env search_term st = Some (Inr ([], 0), st')) \<and>
   (\<forall>result. TI_api_call ti_env (product_action search_term) (product_urldata (fst st)) st
          = (Inr (Some result), st')
        \<and> (status_code result = 403 \<or> status_code result = 404) \<longrightarrow>
      TI_search ti_env search_term st = Some (Inr ([], 0), st')) \<and>
   (TI_searchForExactPart ti_env search_term st = (Inr (Some []), st')
        \<and> TI_products ti_env search_term st' = Some (Inr None, st'') \<longrightarrow>
      TI_search ti_env search_term st = Some (Inr ([], 0), st'')) \<and>
   (TI_searchForExactPart ti_env search_term st = (Inr (Some []), st')
        \<and> TI_products ti_env search_term st' = Some (Inr (Some []), st'') \<longrightarrow>
      TI_search ti_env search_term st = Some (Inr ([], 0), st''))"
proof (intro conjI impI allI)
  assume "0 < max_attempts fe_env
      \<and> net fe_env (length (sent w)) (lookup_request key search_term) = NetResponse r
      \<and> raises_for_status r \<and> json r = None"
  then have "fst (FE_do_request fe_env key ''v1/pim-future/lookup''
           (Some [(''part_number'', QStr search_term), (''lookup_type'', QStr ''contains'')]) w) = Inr None"
    using FE_do_request_http_error [of fe_env w key search_term r] by simp
  then show "fst (FE_search fe_env key search_term w) = Inr ([], 0)"
    by (auto simp: FE_search_def FE_lookup_def split: prod.splits sum.splits option.splits)
next
  assume "FE_do_request fe_env key ''v1/pim-future/lookup''
        (Some [(''part_number'', QStr search_term), (''lookup_type'', QStr ''contains'')]) w
      = (Inr None, w')"
  then show "FE_search fe_env key search_term w = (Inr ([], 0), w')"
    by (simp add: FE_search_def FE_lookup_def)
next
  fix result
  assume "FE_lookup fe_env key search_term ''contains'' w = (Inr (Some result), w')
        \<and> fe_offers result = Some []"
  then show "FE_search fe_env key search_term w = (Inr ([], 0), w')"
    by (simp add: FE_search_def)
next
  assume "TI_api_call ti_env (product_action search_term) (product_urldata (fst st)) st = (Inr None, st')"
  then show "TI_search ti_env search_term st = Some (Inr ([], 0), st')"
    by (simp add: TI_search_def TI_searchForExactPart_def TI_product_def product_action_def
        product_urldata_def)
next
  fix result
  assume "TI_api_call ti_env (product_action search_term) (product_urldata (fst st)) st
          = (Inr (Some result), st')
        \<and> (status_code result = 403 \<or> status_code result = 404)"
  then show "TI_search ti_env search_term st = Some (Inr ([], 0), st')"
    by (auto simp: TI_search_def TI_searchForExactPart_def TI_product_def product_action_def
        product_urldata_def)
next
  assume "TI_searchForExactPart ti_env search_term st = (Inr (Some []), st')
        \<and> TI_products ti_env search_term st' = Some (Inr None, st'')"
  then show "TI_search ti_env search_term st = Some (Inr ([], 0), st'')"
    by (simp add: TI_search_def)
next
  assume "TI_searchForExactPart ti_env search_term st = (Inr (Some []), st')
        \<and> TI_products ti_env search_term st' = Some (Inr (Some []), st'')"
  then show "TI_search ti_env search_term st = Some (Inr ([], 0), st'')"
    by (simp add: TI_search_def)
qed

theorem search_failure_is_empty_result_witness:
  "0 < max_attempts (always_500 :: fe_json env) \<and>
   net (always_500 :: fe_json env) (length (sent quiet_world)) (lookup_request ''key'' ''NE555'')
     = NetResponse \<lparr> status_code = 500, json = None \<rparr> \<and>
   raises_for_status \<lparr> status_code = 500, json = (None :: fe_json option) \<rparr> \<and>
   (let w' = snd (FE_lookup always_500 ''key'' ''NE555'' ''contains'' quiet_world) in
      FE_do_request always_500 ''key'' ''v1/pim-future/lookup''
        (Some [(''part_number'', QStr ''NE555''), (''lookup_type'', QStr ''contains'')]) quiet_world
        = (Inr None, w') \<and>
      FE_search always_500 ''key'' ''NE555'' quiet_world = (Inr ([], 0), w')) \<and>
   (let w' = snd (FE_lookup no_offers ''key'' ''NE555'' ''contains'' quiet_world) in
      FE_lookup no_offers ''key'' ''NE555'' ''contains'' quiet_world
        = (Inr (Some \<lparr> fe_offers = Some [], fe_errors = None \<rparr>), w') \<and>
      FE_search no_offers ''key'' ''NE555'' quiet_world = (Inr ([], 0), w')) \<and>
   (let st' = snd (TI_product always_500 ''NE555'' ti_start) in
      TI_api_call always_500 (product_action ''NE555'') (product_urldata (fst ti_start)) ti_start
        = (Inr None, st') \<and>
      TI_search always_500 ''NE555'' ti_start = Some (Inr ([], 0), st')) \<and>
   (let st' = snd (TI_product ti_exact_404 ''NE555'' ti_start) in
      TI_api_call ti_exact_404 (product_action ''NE555'') (product_urldata (fst ti_start)) ti_start
        = (Inr (Some \<lparr> status_code = 404, json = None \<rparr>), st') \<and>
      TI_search ti_exact_404 ''NE555'' ti_start = Some (Inr ([], 0), st')) \<and>
   (let st' = snd (TI_searchForExactPart ti_pages_404 ''NE555'' ti_start);
        st'' = snd (the (TI_products ti_pages_404 ''NE555'' st')) in
      TI_searchForExactPart ti_pages_404 ''NE555'' ti_start = (Inr (Some []), st') \<and>
      TI_products ti_pages_404 ''NE555'' st' = Some (Inr None, st'') \<and>
      TI_search ti_pages_404 ''NE555'' ti_start = Some (Inr ([], 0), st'')) \<and>
   (let st' = snd (TI_searchForExactPart ti_unknown_part ''NE555'' ti_start);
        st'' = snd (the (TI_products ti_unknown_part ''NE555'' st')) in
      TI_searchForExactPart ti_unknown_part ''NE555'' ti_start = (Inr (Some []), st') \<and>
      TI_products ti_unknown_part ''NE555'' st' = Some (Inr (Some []), st'') \<and>
      TI_search ti_unknown_part ''NE555'' ti_start = Some (Inr ([], 0), st''))"
proof -
  have pair: "fst p = x \<Longrightarrow> snd p = y \<Longrightarrow> p = (x, y)" for p :: "'a \<times> 'b" and x y
    by auto
  have opair: "map_option fst p = Some x \<Longrightarrow> p = Some (x, snd (the p))" for p :: "('a \<times> 'b) option" and x
    by (cases p) auto
  have h1: "0 < max_attempts (always_500 :: fe_json env)"
    "net (always_500 :: fe_json env) (length (sent quiet_world)) (lookup_request ''key'' ''NE555'')
       = NetResponse \<lparr> status_code = 500, json = None \<rparr>"
    "raises_for_status \<lparr> status_code = 500, json = (None :: fe_json option) \<rparr>"
    by (simp_all add: always_500_def raises_for_status_def)
  have a1: "fst (FE_do_request always_500 ''key'' ''v1/pim-future/lookup''
        (Some [(''part_number'', QStr ''NE555''), (''lookup_type'', QStr ''contains'')]) quiet_world)
          = Inr None"
    by code_simp
  have a2: "snd (FE_do_request always_500 ''key'' ''v1/pim-future/lookup''
        (Some [(''part_number'', QStr ''NE555''), (''lookup_type'', QStr ''contains'')]) quiet_world)
          = snd (FE_lookup always_500 ''key'' ''NE555'' ''contains'' quiet_world)"
    by code_simp
  note a = pair [OF a1 a2]
  have b1: "fst (FE_lookup no_offers ''key'' ''NE555'' ''contains'' quiet_world)
             = Inr (Some \<lparr> fe_offers = Some [], fe_errors = None \<rparr>)"
    by code_simp
  note b = pair [OF b1 refl]
  have c1: "fst (TI_api_call always_500 (product_action ''NE555'') (product_urldata (fst ti_start)) ti_start)
              = Inr None"
    by code_simp
  have c2: "snd (TI_api_call always_500 (product_action ''NE555'') (product_urldata (fst ti_start)) ti_start)
              = snd (TI_product always_500 ''NE555'' ti_start)"
    by code_simp
  note c = pair [OF c1 c2]
  have d1: "fst (TI_api_call ti_exact_404 (product_action ''NE555'') (product_urldata (fst ti_start)) ti_start)
              = Inr (Some \<lparr> status_code = 404, json = None \<rparr>)"
    by code_simp
  have d2: "snd (TI_api_call ti_exact_404 (product_action ''NE555'') (product_urldata (fst ti_start)) ti_start)
              = snd (TI_product ti_exact_404 ''NE555'' ti_start)"
    by code_simp
  note d = pair [OF d1 d2]
  have e1: "fst (TI_searchForExactPart ti_pages_404 ''NE555'' ti_start) = Inr (Some [])"
    by code_simp
  note e = pair [OF e1 refl]
  have f1: "map_option fst (TI_products ti_pages_404 ''NE555''
             (snd (TI_searchForExactPart ti_pages_404 ''NE555'' ti_start))) = Some (Inr None)"
    by code_simp
  note f = opair [OF f1]
  have g1: "fst (TI_searchForExactPart ti_unknown_part ''NE555'' ti_start) = Inr (Some [])"
    by code_simp
  note g = pair [OF g1 refl]
  have i1: "map_option fst (TI_products ti_unknown_part ''NE555''
             (snd (TI_searchForExactPart ti_unknown_part ''NE555'' ti_start))) = Some (Inr (Some []))"
    by code_simp
  note i = opair [OF i1]
  have s404: "status_code \<lparr> status_code = 404, json = (None :: ti_json option) \<rparr> = 404"
    by simp
  note t1 = search_failure_is_empty_result [of always_500 quiet_world "''key''" "''NE555''"
        "\<lparr> status_code = 500, json = None \<rparr>"
        "snd (FE_lookup always_500 ''key'' ''NE555'' ''contains'' quiet_world)"
        always_500 ti_start "snd (TI_product always_500 ''NE555'' ti_start)"]
  note t2 = search_failure_is_empty_result [of no_offers quiet_world "''key''" "''NE555''"
        "\<lparr> status_code = 500, json = None \<rparr>"
        "snd (FE_lookup no_offers ''key'' ''NE555'' ''contains'' quiet_world)"
        ti_exact_404 ti_start "snd (TI_product ti_exact_404 ''NE555'' ti_start)"]
  note t3 = search_failure_is_empty_result [of no_offers quiet_world "''key''" "''NE555''"
        "\<lparr> status_code = 500, json = None \<rparr>"
        "snd (FE_lookup no_offers ''key'' ''NE555'' ''contains'' quiet_world)"
        ti_pages_404 ti_start "snd (TI_searchForExactPart ti_pages_404 ''NE555'' ti_start)"
        "snd (the (TI_products ti_pages_404 ''NE555''
             (snd (TI_searchForExactPart ti_pages_404 ''NE555'' ti_start))))"]
  note t4 = search_failure_is_empty_result [of no_offers quiet_world "''key''" "''NE555''"
        "\<lparr> status_code = 500, json = None \<rparr>"
        "snd (FE_lookup no_offers ''key'' ''NE555'' ''contains'' quiet_world)"
        ti_unknown_part ti_start "snd (TI_searchForExactPart ti_unknown_part ''NE555'' ti_start)"
        "snd (the (TI_products ti_unknown_part ''NE555''
             (snd (TI_searchForExactPart ti_unknown_part ''NE555'' ti_start))))"]
  have fe_fail: "FE_search always_500 ''key'' ''NE555'' quiet_world
      = (Inr ([], 0), snd (FE_lookup always_500 ''key'' ''NE555'' ''contains'' quiet_world))"
    using t1 a by blast
  have fe_none: "FE_search no_offers ''key'' ''NE555'' quiet_world
      = (Inr ([], 0), snd (FE_lookup no_offers ''key'' ''NE555'' ''contains'' quiet_world))"
    using t2 b by (metis fe_json.select_convs(1))
  have ti_fail: "TI_search always_500 ''NE555'' ti_start
      = Some (Inr ([], 0), snd (TI_product always_500 ''NE555'' ti_start))"
    using t1 c by blast
  have ti_404: "TI_search ti_exact_404 ''NE555'' ti_start
      = Some (Inr ([], 0), snd (TI_product ti_exact_404 ''NE555'' ti_start))"
    using t2 d s404 by blast
  have ti_pages: "TI_search ti_pages_404 ''NE555'' ti_start
      = Some (Inr ([], 0), snd (the (TI_products ti_pages_404 ''NE555''
             (snd (TI_searchForExactPart ti_pages_404 ''NE555'' ti_start)))))"
    using t3 e f by blast
  have ti_zero: "TI_search ti_unknown_part ''NE555'' ti_start
      = Some (Inr ([], 0), snd (the (TI_products ti_unknown_part ''NE555''
             (snd (TI_searchForExactPart ti_unknown_part ''NE555'' ti_start)))))"
    using t4 g i by blast
  show ?thesis
    unfolding Let_def
    using h1 a b c d e f g i fe_fail fe_none ti_fail ti_404 ti_pages ti_zero
    by (intro conjI) assumption+
qed

text \<open>
  Claim C1 as stated fails: when the service answers every request with status 500,
  \<open>_do_request\<close> and \<open>lookup\<close> return \<open>None\<close> and \<open>FE.search\<close> returns
  \<open>([], 0)\<close>, the very value it returns when the service answers with no offers.
  \<open>TI.search\<close> returns it too, whether the service answers with status 500 or 404 or
  finds nothing.
\<close>

theorem search_failure_counterexample:
  "fst (FE_do_request always_500 ''key'' ''v1/pim-future/lookup''
          (Some [(''part_number'', QStr ''NE555''), (''lookup_type'', QStr ''contains'')]) quiet_world)
     = Inr None \<and>
   fst (FE_lookup always_500 ''key'' ''NE555'' ''contains'' quiet_world) = Inr None \<and>
   fst (FE_search always_500 ''key'' ''NE555'' quiet_world) = Inr ([], 0) \<and>
   fst (FE_search no_offers ''key'' ''NE555'' quiet_world) = Inr ([], 0) \<and>
   fst (FE_search always_500 ''key'' ''NE555'' quiet_world)
     = fst (FE_search no_offers ''key'' ''NE555'' quiet_world) \<and>
   map_option fst (TI_search always_500 ''NE555'' ti_start) = Some (Inr ([], 0)) \<and>
   map_option fst (TI_search ti_exact_404 ''NE555'' ti_start) = Some (Inr ([], 0)) \<and>
   map_option fst (TI_search ti_pages_404 ''NE555'' ti_start) = Some (Inr ([], 0)) \<and>
   map_option fst (TI_search ti_unknown_part ''NE555'' ti_start) = Some (Inr ([], 0))"
  by code_simp

section \<open>Price breaks of \<open>FE.get_api_part\<close>\<close>

lemma below_prices_Nil: "below_prices m [] = {}"
  by (simp add: below_prices_def)

lemma below_prices_Cons:
  "below_prices m ((q, p) # vs) = (if q \<le> m then insert p (below_prices m vs) else below_prices m vs)"
  by (simp add: below_prices_def)

lemma finite_below_prices: "finite (below_prices m ups)"
  by (simp add: below_prices_def)

lemma pricing_loop_fst:
  "map_of (fst (pricing_loop m vs acc b)) =
     map_of acc ++ map_of (rev (filter (\<lambda>(q', p). m < q') vs))"
proof (induction vs arbitrary: acc b)
  case Nil
  then show ?case by simp
next
  case (Cons v vs)
  obtain q' p where v: "v = (q', p)" by (cases v)
  show ?case
  proof (cases "q' \<le> m")
    case True
    then show ?thesis by (cases b) (simp_all add: v Cons.IH)
  next
    case False
    have "map_of (fst (pricing_loop m (v # vs) acc b)) x =
            (map_of acc ++ map_of (rev (filter (\<lambda>(q', p). m < q') (v # vs)))) x" for x
      using False by (simp add: v Cons.IH AList.update_conv' map_add_def split: option.splits)
    then show ?thesis by (rule ext)
  qed
qed

lemma pricing_loop_snd:
  "snd (pricing_loop m vs acc b) =
     (let S = below_prices m vs \<union> set_option b in if S = {} then None else Some (Min S))"
proof (induction vs arbitrary: acc b)
  case Nil
  then show ?case by (cases b) (simp_all add: below_prices_Nil)
next
  case (Cons v vs)
  obtain q' p where v: "v = (q', p)" by (cases v)
  show ?case
  proof (cases "q' \<le> m")
    case False
    then show ?thesis by (simp add: v Cons.IH below_prices_Cons)
  next
    case True
    note le = this
    show ?thesis
    proof (cases b)
      case None
      then show ?thesis using le by (simp add: v Cons.IH below_prices_Cons)
    next
      case (Some best)
      have fin: "finite (below_prices m vs)" by (rule finite_below_prices)
      show ?thesis
      proof (cases "best > p")
        case True
        then have "Min (insert p (insert best (below_prices m vs))) = Min (insert p (below_prices m vs))"
          using fin by (cases "below_prices m vs = {}") (auto simp: min_def)
        then show ?thesis using le Some True
          by (simp add: v Cons.IH below_prices_Cons Let_def insert_commute)
      next
        case False
        then have "Min (insert p (insert best (below_prices m vs))) = Min (insert best (below_prices m vs))"
          using fin by (cases "below_prices m vs = {}") (auto simp: min_def)
        then show ?thesis using le Some False
          by (simp add: v Cons.IH below_prices_Cons Let_def insert_commute)
      qed
    qed
  qed
qed

lemma pricing_loop_distinct:
  "distinct (map fst acc) \<Longrightarrow> distinct (map fst (fst (pricing_loop m vs acc b)))"
proof (induction vs arbitrary: acc b)
  case Nil
  then show ?case by simp
next
  case (Cons v vs)
  obtain q' p where v: "v = (q', p)" by (cases v)
  show ?case using Cons.prems
    by (auto simp: v AList.distinct_update intro!: Cons.IH split: option.splits)
qed

lemma FE_price_breaks_distinct: "distinct (map fst (FE_price_breaks m ups))"
proof -
  have d: "distinct (map fst (fst (pricing_loop m ups [] None)))"
    by (rule pricing_loop_distinct) simp
  show ?thesis
    using d by (cases "pricing_loop m ups [] None")
      (auto simp: FE_price_breaks_def AList.distinct_update split: option.splits)
qed

lemma map_of_filter_above:
  "map_of (rev (filter (\<lambda>(q', p). m < q') vs)) q = (if m < q then map_of (rev vs) q else None)"
proof (induction vs)
  case Nil
  then show ?case by simp
next
  case (Cons v vs)
  obtain q' p where v: "v = (q', p)" by (cases v)
  show ?case using Cons.IH
    by (auto simp: v map_add_def split: option.splits)
qed

lemma FE_price_breaks_map_of:
  "map_of (FE_price_breaks m ups) q =
     (if q = m then (if below_prices m ups = {} then None else Some (Min (below_prices m ups)))
      else if m < q then map_of (rev ups) q else None)"
proof -
  obtain pr b where pl: "pricing_loop m ups [] None = (pr, b)" by (cases "pricing_loop m ups [] None")
  have pr: "map_of pr q = (if m < q then map_of (rev ups) q else None)" for q
    using pricing_loop_fst [of m ups "[]" None] by (simp add: pl map_of_filter_above)
  have b: "b = (if below_prices m ups = {} then None else Some (Min (below_prices m ups)))"
    using pricing_loop_snd [of m ups "[]" None] by (simp add: pl)
  show ?thesis
    by (cases b) (use b in \<open>auto simp: FE_price_breaks_def pl pr AList.update_conv' split: if_splits\<close>)
qed


lemma map_of_rev_above:
  "map_of (rev (above_breaks m ups)) q = (if m < q then map_of (rev ups) q else None)"
  unfolding above_breaks_def by (rule map_of_filter_above)

lemma price_breaks_FE_get_api_part:
  "price_breaks (FE_get_api_part p) = FE_price_breaks (fe_quantity_minimum p) (fe_pricing p)"
  by (simp add: FE_get_api_part_def Let_def)

lemma FE_price_breaks_set:
  assumes d: "distinct (map fst ups)"
  shows "set (FE_price_breaks m ups) =
           set (above_breaks m ups) \<union>
           (if below_prices m ups = {} then {} else {(m, Min (below_prices m ups))})"
proof -
  have da: "distinct (map fst (above_breaks m ups))"
    using d by (simp add: above_breaks_def distinct_map_filter)
  have above: "(k, v) \<in> set (above_breaks m ups) \<longleftrightarrow> map_of (rev (above_breaks m ups)) k = Some v" for k v
    using da by (simp add: rev_map [symmetric])
  have notm: "(m, v) \<notin> set (above_breaks m ups)" for v
    by (simp add: above_breaks_def)
  have "(k, v) \<in> set (FE_price_breaks m ups) \<longleftrightarrow>
        (k, v) \<in> set (above_breaks m ups) \<union>
          (if below_prices m ups = {} then {} else {(m, Min (below_prices m ups))})" for k v
  proof -
    have "(k, v) \<in> set (FE_price_breaks m ups) \<longleftrightarrow> map_of (FE_price_breaks m ups) k = Some v"
      using map_of_eq_Some_iff [OF FE_price_breaks_distinct, of m ups k v] by simp
    also have "\<dots> \<longleftrightarrow> (if k = m \<and> below_prices m ups \<noteq> {} then v = Min (below_prices m ups)
                   else (k, v) \<in> set (above_breaks m ups))"
      by (auto simp: FE_price_breaks_map_of map_of_rev_above above)
    also have "\<dots> \<longleftrightarrow> (k, v) \<in> set (above_breaks m ups) \<union>
          (if below_prices m ups = {} then {} else {(m, Min (below_prices m ups))})"
      using notm by auto
    finally show ?thesis .
  qed
  then show ?thesis by (intro set_eqI) (simp only: split_paired_all)
qed

text \<open>
  Claim C2. For every offer, with \<open>m\<close> its stated minimum order quantity and \<open>ups\<close> its
  upstream pricing list, the \<open>price_breaks\<close> dict of the record made by
  \<open>FE.get_api_part\<close> has one value per key, and
  \<^item> at the key \<open>m\<close> it holds the lowest unit price among the upstream breaks at or below
    \<open>m\<close>, when there is such a break;
  \<^item> at every other key it holds what the upstream breaks strictly above \<open>m\<close> give for
    that key (the last one, should a quantity be listed twice), and nothing when there is
    none;
  \<^item> so, when no quantity is listed twice upstream, its entries are exactly the upstream
    breaks strictly above \<open>m\<close>, unchanged, plus the entry at \<open>m\<close>;
  \<^item> the upstream breaks \<open>{1: 2.00, 10: 1.50, 100: 1.20}\<close> with minimum 10 give
    \<open>{10: 1.50, 100: 1.20}\<close>.
\<close>

theorem FE_price_breaks_collapse:
  "(let m = fe_quantity_minimum p; ups = fe_pricing p; breaks = price_breaks (FE_get_api_part p) in
      distinct (map fst breaks) \<and>
      (\<forall>q. map_of breaks q =
         (if q = m \<and> below_prices m ups \<noteq> {} then Some (Min (below_prices m ups))
          else map_of (rev (above_breaks m ups)) q)) \<and>
      (distinct (map fst ups) \<longrightarrow>
         set breaks =
           set (above_breaks m ups) \<union>
           (if below_prices m ups = {} then {} else {(m, Min (below_prices m ups))}))) \<and>
   (fe_quantity_minimum p = 10 \<and> fe_pricing p = [(1, 2), (10, 3 / 2), (100, 6 / 5)] \<longrightarrow>
      map_of (price_breaks (FE_get_api_part p)) = [10 \<mapsto> 3 / 2, 100 \<mapsto> 6 / 5])"
proof -
  have ex: "map_of (FE_price_breaks 10 [(1, 2), (10, 3 / 2), (100, 6 / 5)]) = [10 \<mapsto> 3 / 2, 100 \<mapsto> 6 / 5]"
    by (rule ext) (simp add: FE_price_breaks_def)
  show ?thesis
    unfolding Let_def price_breaks_FE_get_api_part
    using ex FE_price_breaks_set [of "fe_pricing p" "fe_quantity_minimum p"]
    by (simp add: FE_price_breaks_distinct FE_price_breaks_map_of map_of_rev_above)
qed

theorem FE_price_breaks_collapse_witness:
  "distinct (map fst (fe_pricing offer_1_10_100)) \<and>
   set (price_breaks (FE_get_api_part offer_1_10_100)) = {(100, 6 / 5), (10, 3 / 2)} \<and>
   map_of (price_breaks (FE_get_api_part offer_1_10_100)) = [10 \<mapsto> 3 / 2, 100 \<mapsto> 6 / 5]"
  using FE_price_breaks_collapse [of offer_1_10_100]
  by (auto simp: Let_def offer_1_10_100_def below_prices_def above_breaks_def)

section \<open>Currency selection of \<open>TI.get_api_part\<close>\<close>

lemma select_pricing_char:
  "select_pricing target vs pd =
     (case find (\<lambda>v. pl_currency v = target) vs of
        Some v \<Rightarrow> v
      | None \<Rightarrow> (case filter (\<lambda>v. pl_currency v = ''USD'') vs of [] \<Rightarrow> pd | u # us \<Rightarrow> last (u # us)))"
proof (induction vs arbitrary: pd)
  case Nil
  then show ?case by simp
next
  case (Cons v vs)
  show ?case
  proof (cases "pl_currency v = target")
    case True
    then show ?thesis by simp
  next
    case False
    then show ?thesis
      by (simp add: Cons.IH split: option.splits list.splits)
  qed
qed


text \<open>
  Claim C3. For every product and every configured target currency, \<open>TI.get_api_part\<close>
  \<^item> selects the first price list whose currency is the target currency, when there is
    one, and the record's currency is then the target currency;
  \<^item> otherwise, when there is a list tagged USD, selects the last such list, and the
    record's currency is USD;
  \<^item> when there is neither, keeps its initial value: the target currency and no price
    break;
  \<^item> in every case tags the record with the currency of the selected list and takes its
    price breaks from that list;
  \<^item> with lists in EUR and USD and the target GBP, selects the USD list and tags the
    record USD.
\<close>

theorem TI_currency_selection:
  "(\<forall>v. find (\<lambda>v. pl_currency v = target) (ti_pricing p) = Some v \<longrightarrow>
        TI_pricingData target p = v \<and> currency (TI_get_api_part target p) = target) \<and>
   ((\<forall>v \<in> set (ti_pricing p). pl_currency v \<noteq> target)
      \<and> (\<exists>v \<in> set (ti_pricing p). pl_currency v = ''USD'') \<longrightarrow>
        TI_pricingData target p = last (filter (\<lambda>v. pl_currency v = ''USD'') (ti_pricing p))
        \<and> currency (TI_get_api_part target p) = ''USD'') \<and>
   ((\<forall>v \<in> set (ti_pricing p). pl_currency v \<noteq> target \<and> pl_currency v \<noteq> ''USD'') \<longrightarrow>
        TI_pricingData target p = \<lparr> pl_currency = target, pl_priceBreaks = [] \<rparr>) \<and>
   currency (TI_get_api_part target p) = pl_currency (TI_pricingData target p) \<and>
   price_breaks (TI_get_api_part target p) = dict_of (pl_priceBreaks (TI_pricingData target p)) \<and>
   (\<forall>eur usd. ti_pricing p = [eur, usd] \<and> pl_currency eur = ''EUR'' \<and> pl_currency usd = ''USD'' \<longrightarrow>
        TI_pricingData ''GBP'' p = usd \<and> currency (TI_get_api_part ''GBP'' p) = ''USD'')"
proof (intro conjI allI impI)
  show cur: "currency (TI_get_api_part target p) = pl_currency (TI_pricingData target p)" for target
    by (simp add: TI_get_api_part_def Let_def)
  show "price_breaks (TI_get_api_part target p) = dict_of (pl_priceBreaks (TI_pricingData target p))"
    by (simp add: TI_get_api_part_def Let_def)
  show sel: "TI_pricingData target p = v"
    if "find (\<lambda>v. pl_currency v = target) (ti_pricing p) = Some v" for v
    using that by (simp add: TI_pricingData_def select_pricing_char)
  show "currency (TI_get_api_part target p) = target"
    if f: "find (\<lambda>v. pl_currency v = target) (ti_pricing p) = Some v" for v
  proof -
    have "pl_currency v = target" using f by (auto simp: find_Some_iff)
    then show ?thesis using sel [OF f] by (simp add: cur)
  qed
  show usd: "TI_pricingData target p = last (filter (\<lambda>v. pl_currency v = ''USD'') (ti_pricing p))"
    if "(\<forall>v \<in> set (ti_pricing p). pl_currency v \<noteq> target)
          \<and> (\<exists>v \<in> set (ti_pricing p). pl_currency v = ''USD'')"
  proof -
    have n: "find (\<lambda>v. pl_currency v = target) (ti_pricing p) = None"
      using that by (auto simp: find_None_iff)
    have ne: "filter (\<lambda>v. pl_currency v = ''USD'') (ti_pricing p) \<noteq> []"
      using that by (simp add: filter_empty_conv)
    show ?thesis using ne
      by (simp add: TI_pricingData_def select_pricing_char n split: list.splits)
  qed
  show "currency (TI_get_api_part target p) = ''USD''"
    if h: "(\<forall>v \<in> set (ti_pricing p). pl_currency v \<noteq> target)
          \<and> (\<exists>v \<in> set (ti_pricing p). pl_currency v = ''USD'')"
  proof -
    let ?us = "filter (\<lambda>v. pl_currency v = ''USD'') (ti_pricing p)"
    have ne: "?us \<noteq> []" using h by (simp add: filter_empty_conv)
    then have "last ?us \<in> set ?us" by (rule last_in_set)
    then have "pl_currency (last ?us) = ''USD''" by simp
    then show ?thesis using usd [OF h] by (simp add: cur)
  qed
  show "TI_pricingData target p = \<lparr> pl_currency = target, pl_priceBreaks = [] \<rparr>"
    if h: "\<forall>v \<in> set (ti_pricing p). pl_currency v \<noteq> target \<and> pl_currency v \<noteq> ''USD''"
  proof -
    have n: "find (\<lambda>v. pl_currency v = target) (ti_pricing p) = None"
      using h by (auto simp: find_None_iff)
    have e: "filter (\<lambda>v. pl_currency v = ''USD'') (ti_pricing p) = []"
      using h by (simp add: filter_empty_conv)
    show ?thesis
      by (simp add: TI_pricingData_def select_pricing_char n e)
  qed
  show g1: "TI_pricingData ''GBP'' p = usd"
    if "ti_pricing p = [eur, usd] \<and> pl_currency eur = ''EUR'' \<and> pl_currency usd = ''USD''" for eur usd
    using that by (simp add: TI_pricingData_def)
  show "currency (TI_get_api_part ''GBP'' p) = ''USD''"
    if "ti_pricing p = [eur, usd] \<and> pl_currency eur = ''EUR'' \<and> pl_currency usd = ''USD''" for eur usd
    using that g1 [OF that] by (simp add: cur)
qed

theorem TI_currency_selection_witness:
  "find (\<lambda>v. pl_currency v = ''EUR'') (ti_pricing product_eur_usd) = Some eur_list \<and>
   TI_pricingData ''EUR'' product_eur_usd = eur_list \<and>
   currency (TI_get_api_part ''EUR'' product_eur_usd) = ''EUR'' \<and>
   list_all (\<lambda>v. pl_currency v \<noteq> ''GBP'') (ti_pricing product_eur_usd) \<and>
   list_ex (\<lambda>v. pl_currency v = ''USD'') (ti_pricing product_eur_usd) \<and>
   TI_pricingData ''GBP'' product_eur_usd = usd_list \<and>
   currency (TI_get_api_part ''GBP'' product_eur_usd) = ''USD''"
  using TI_currency_selection [of "''EUR''" product_eur_usd]
        TI_currency_selection [of "''GBP''" product_eur_usd]
  by (simp add: product_eur_usd_def eur_list_def usd_list_def)

section \<open>The dispatcher\<close>

text \<open>
  Claim C4. Once the suppliers are set up (\<open>_SUPPLIERS\<close> is built, or can be built
  from the objects and the companies), every call of \<open>search\<close> with \<open>only_supplier\<close>
  set and a supplier id given (a non-empty string, as the test \<open>if supplier_id:\<close>
  reads it) that is not a key of the loaded suppliers reports one error, which names the
  id, and returns \<open>None\<close>: there is no handle, so no call of a supplier's \<open>search\<close>
  was handed to the pool. (Without \<open>only_supplier\<close> the call ends in the same way.)
\<close>

theorem search_unknown_only_supplier:
  assumes "init_SUPPLIERS g = Inr (g', loaded)"
      and "sid \<noteq> []"
      and "sid \<notin> fst ` set loaded"
  shows "search config_name g search_term (Some sid) True =
           (Inr None, g',
            [LogError None (''supplier id '' @ quoted sid @ '' not defined in '' @ config_name)]) \<and>
         search config_name g search_term (Some sid) False =
           search config_name g search_term (Some sid) True"
proof -
  have "map_of loaded sid = None"
    using assms(3) by (simp add: map_of_eq_None_iff)
  then show ?thesis
    using assms(1,2) by (simp add: search_def)
qed

theorem search_unknown_only_supplier_witness:
  "init_SUPPLIERS two_suppliers = Inr (two_suppliers_ready, two_loaded) \<and>
   ''lcsc'' \<noteq> [] \<and> ''lcsc'' \<notin> fst ` set two_loaded \<and>
   search ''suppliers.yaml'' two_suppliers ''NE555'' (Some ''lcsc'') True =
     (Inr None, two_suppliers_ready,
      [LogError None (''supplier id '' @ quoted ''lcsc'' @ '' not defined in suppliers.yaml'')])"
proof -
  have i: "init_SUPPLIERS two_suppliers = Inr (two_suppliers_ready, two_loaded)"
    by (simp add: init_SUPPLIERS_def two_suppliers_def two_suppliers_ready_def two_loaded_def dict_of_def Let_def)
  have n: "''lcsc'' \<notin> fst ` set two_loaded"
    by (simp add: two_loaded_def)
  show ?thesis
    using i n search_unknown_only_supplier [OF i _ n, of "''suppliers.yaml''" "''NE555''"]
    by simp
qed

text \<open>
  Claim C5, as amended. Once the suppliers are set up, every call of \<open>search\<close> without
  \<open>only_supplier\<close> and with a supplier id given (a non-empty string) that is a key of
  the loaded suppliers returns handles of which the first is the selected supplier's,
  followed by those of the other suppliers in their order, and which are, up to their
  order, the handles of the call without a supplier id: one per loaded supplier. Nothing
  is reported.
\<close>

theorem search_preferred_first:
  assumes init: "init_SUPPLIERS g = Inr (g', loaded)"
      and given: "sid \<noteq> []"
      and found: "map_of loaded sid = Some (supplier_object, api_company)"
  shows "\<exists>handles.
           search config_name g search_term (Some sid) False = (Inr (Some handles), g', []) \<and>
           handles = handles_of search_term
             ((supplier_object, api_company) # remove1 (supplier_object, api_company) (map snd loaded)) \<and>
           hd handles = (api_company, ApplyAsync supplier_object search_term) \<and>
           length handles = length loaded \<and>
           mset handles = mset (handles_of search_term (map snd loaded)) \<and>
           search config_name g search_term None False
             = (Inr (Some (handles_of search_term (map snd loaded))), g', [])"
proof -
  let ?sup = "(supplier_object, api_company)"
  let ?sups = "map snd loaded"
  let ?hs = "handles_of search_term (?sup # remove1 ?sup ?sups)"
  have mem: "?sup \<in> set ?sups"
    using map_of_SomeD [OF found] by force
  have s: "search config_name g search_term (Some sid) False = (Inr (Some ?hs), g', [])"
    using init given found by (simp add: search_def handles_of_def)
  have m: "mset (?sup # remove1 ?sup ?sups) = mset ?sups"
    using mem by simp
  have "mset ?hs = mset (handles_of search_term ?sups)"
    unfolding handles_of_def using m by (metis mset_map)
  moreover have "length ?hs = length loaded"
  proof -
    have "length (?sup # remove1 ?sup ?sups) = length ?sups"
      using m by (rule mset_eq_length)
    then show ?thesis by (simp add: handles_of_def)
  qed
  moreover have "hd ?hs = (api_company, ApplyAsync supplier_object search_term)"
    by (simp add: handles_of_def)
  moreover have "search config_name g search_term None False
             = (Inr (Some (handles_of search_term ?sups)), g', [])"
    using init by (simp add: search_def handles_of_def)
  ultimately show ?thesis using s by blast
qed


theorem search_preferred_first_witness:
  "init_SUPPLIERS two_suppliers = Inr (two_suppliers_ready, two_loaded) \<and>
   ''ti'' \<noteq> [] \<and> map_of two_loaded ''ti'' = Some (2, 20) \<and>
   search ''suppliers.yaml'' two_suppliers ''NE555'' (Some ''ti'') False =
     (Inr (Some [(20, ApplyAsync 2 ''NE555''), (10, ApplyAsync 1 ''NE555'')]), two_suppliers_ready, []) \<and>
   search ''suppliers.yaml'' two_suppliers ''NE555'' None False =
     (Inr (Some [(10, ApplyAsync 1 ''NE555''), (20, ApplyAsync 2 ''NE555'')]), two_suppliers_ready, [])"
proof -
  have i: "init_SUPPLIERS two_suppliers = Inr (two_suppliers_ready, two_loaded)"
    by (simp add: init_SUPPLIERS_def two_suppliers_def two_suppliers_ready_def two_loaded_def dict_of_def Let_def)
  have f: "map_of two_loaded ''ti'' = Some (2, 20)"
    by (simp add: two_loaded_def)
  have s: "search ''suppliers.yaml'' two_suppliers ''NE555'' (Some ''ti'') False =
     (Inr (Some [(20, ApplyAsync 2 ''NE555''), (10, ApplyAsync 1 ''NE555'')]), two_suppliers_ready, [])"
    using i by (simp add: search_def two_loaded_def)
  show ?thesis
    using i f s search_preferred_first [OF i _ f, of "''suppliers.yaml''" "''NE555''"]
    by (auto simp: handles_of_def two_loaded_def)
qed

text \<open>
  Claim C5 as stated fails for a supplier id that is given but is not a key of the loaded
  suppliers: without \<open>only_supplier\<close>, \<open>search\<close> reports an error and returns
  \<open>None\<close>, so that no supplier is queried, while the call without a supplier id
  queries both loaded suppliers. The preference changes the set of suppliers queried.
\<close>

theorem search_preferred_unknown_counterexample:
  "search ''suppliers.yaml'' two_suppliers ''NE555'' (Some ''lcsc'') False =
     (Inr None, two_suppliers_ready,
      [LogError None (''supplier id '' @ quoted ''lcsc'' @ '' not defined in suppliers.yaml'')]) \<and>
   search ''suppliers.yaml'' two_suppliers ''NE555'' None False =
     (Inr (Some [(10, ApplyAsync 1 ''NE555''), (20, ApplyAsync 2 ''NE555'')]), two_suppliers_ready, [])"
proof -
  have i: "init_SUPPLIERS two_suppliers = Inr (two_suppliers_ready, two_loaded)"
    by (simp add: init_SUPPLIERS_def two_suppliers_def two_suppliers_ready_def two_loaded_def
        dict_of_def Let_def)
  show ?thesis
    using i by (simp add: search_def two_loaded_def)
qed

section \<open>The discovery of supplier modules\<close>

lemma after_first_prefix:
  assumes "sep \<noteq> []"
  shows "after_first sep (sep @ s) = Some s"
proof -
  obtain c cs where e: "sep @ s = c # cs"
    using assms by (cases sep) auto
  have t: "take (length sep) (c # cs) = sep" and d: "drop (length sep) (c # cs) = s"
    using e [symmetric] by simp_all
  have "after_first sep (c # cs) = Some s"
    by (simp only: after_first.simps t d if_True simp_thms)
  then show ?thesis by (simp only: e)
qed

lemma split1_last_prefix: "split1_last ''supplier_'' (module_name_of s) = s"
  using after_first_prefix [of "''supplier_''" s] by (simp add: split1_last_def module_name_of_def)

lemma supplier_classes_name: "(module_name_of m = ''supplier_classes'') = (m = ''classes'')"
  by (simp add: module_name_of_def)

lemma usable_modules_Nil: "usable_modules imp inst [] = []"
  by (simp add: usable_modules_def)

lemma usable_modules_Cons:
  "usable_modules imp inst (m # ms) =
     (case usable_class imp (module_name_of m) of
        None \<Rightarrow> usable_modules imp inst ms
      | Some cls \<Rightarrow>
          (case inst cls of
             Inl e \<Rightarrow> usable_modules imp inst ms
           | Inr supplier \<Rightarrow> (m, supplier) # usable_modules imp inst ms))"
  by (simp add: usable_modules_def split: option.splits sum.splits)

lemma discover_skips:
  assumes "\<forall>m \<in> set paths. \<forall>e. imp (module_name_of m) = Raises e \<longrightarrow> (\<exists>msg. e = ImportError msg)"
      and "\<not> reload_clash imp paths b"
      and "\<forall>m \<in> set paths. \<forall>cls. usable_class imp (module_name_of m) = Some cls \<longrightarrow> (\<exists>obj. inst cls = Inr obj)"
  shows "discover imp inst paths b acc msgs =
           (Inr (foldl (\<lambda>d (k, v). AList.update k v d) acc (usable_modules imp inst paths)),
            msgs @ map (\<lambda>m. skip_message imp (module_name_of m))
                       (filter (\<lambda>m. usable_class imp (module_name_of m) = None) paths))"
  using assms
proof (induction paths arbitrary: b acc msgs)
  case Nil
  then show ?case by (simp add: usable_modules_Nil)
next
  case (Cons m ms)
  let ?name = "module_name_of m"
  have rest: "\<forall>m \<in> set ms. \<forall>e. imp (module_name_of m) = Raises e \<longrightarrow> (\<exists>msg. e = ImportError msg)"
    "\<forall>m \<in> set ms. \<forall>cls. usable_class imp (module_name_of m) = Some cls \<longrightarrow> (\<exists>obj. inst cls = Inr obj)"
    using Cons.prems by simp_all
  have constructs: "\<And>cls. usable_class imp ?name = Some cls \<Longrightarrow> \<exists>obj. inst cls = Inr obj"
    using Cons.prems(3) by simp
  have noclash: "\<not> (m = ''classes'' \<and> b)"
    and tail: "\<not> reload_clash imp ms (b \<or> (case imp ?name of Module vals \<Rightarrow> True | Raises e \<Rightarrow> False))"
    using Cons.prems(2) by simp_all
  have sel: "(if ?name = ''supplier_classes'' \<and> b then Raises TypeError else imp ?name) = imp ?name"
    using noclash by (simp only: supplier_classes_name) simp
  show ?case
  proof (cases "imp ?name")
    case (Raises e)
    then obtain msg where e: "e = ImportError msg" using Cons.prems(1) by auto
    have t: "\<not> reload_clash imp ms b" using tail Raises by simp
    note IH = Cons.IH [OF rest(1) t rest(2)]
    show ?thesis
      unfolding discover.simps Let_def sel
      by (simp add: Raises e IH usable_modules_Cons usable_class_def skip_message_def)
  next
    case (Module vals)
    have t: "\<not> reload_clash imp ms True" using tail Module by simp
    note IH = Cons.IH [OF rest(1) t rest(2)]
    show ?thesis
    proof (cases "supplier_classes_of vals")
      case none: Nil
      then show ?thesis
        unfolding discover.simps Let_def sel
        by (simp add: Module IH usable_modules_Cons usable_class_def skip_message_def)
    next
      case some: (Cons c cs)
      show ?thesis
      proof (cases cs)
        case one: Nil
        have u: "usable_class imp ?name = Some c"
          by (simp add: usable_class_def Module some one)
        then obtain obj where obj: "inst c = Inr obj"
          using constructs by blast
        show ?thesis
          unfolding discover.simps Let_def sel
          by (simp add: Module some one IH usable_modules_Cons u obj split1_last_prefix)
      next
        case several: (Cons c' cs')
        then show ?thesis
          unfolding discover.simps Let_def sel
          by (simp add: Module some IH usable_modules_Cons usable_class_def skip_message_def)
      qed
    qed
  qed
qed

text \<open>
  Claim C6, as amended. Let the registry be not loaded yet, and let
  \<^item> no module's import raise an exception other than \<open>ImportError\<close>,
  \<^item> the loop not come to the file \<open>supplier_classes.py\<close> after a module that was
    imported without an exception,
  \<^item> the constructor of the one \<open>Supplier\<close> subclass of a module return an instance,
  \<^item> \<open>load_suppliers_config\<close> return, with the suppliers \<open>loaded\<close>.
  Then \<open>get_supplier_classes\<close> returns \<open>loaded\<close>, and:
  \<^item> a module whose import raises \<open>ImportError\<close>, or which defines no or several
    \<open>Supplier\<close> subclasses, is skipped with one error message that names it, and the
    modules after it are still examined;
  \<^item> the available suppliers are the instances of the other modules, keyed by id;
  \<^item> when \<open>load_suppliers_config\<close> returns fewer suppliers than are available, the two
    counts are reported last, as a hint;
  \<^item> the globals hold the available ids and the loaded suppliers.
\<close>

theorem discovery_skips_failed_modules:
  assumes "SUPPLIER_OBJECTS g = None"
      and "\<forall>m \<in> set paths. \<forall>e. import_module (module_name_of m) = Raises e
             \<longrightarrow> (\<exists>msg. e = ImportError msg)"
      and "\<not> reload_clash import_module paths False"
      and "\<forall>m \<in> set paths. \<forall>cls. usable_class import_module (module_name_of m) = Some cls
             \<longrightarrow> (\<exists>supplier. instantiate cls = Inr supplier)"
      and "load_suppliers_config (dict_of (usable_modules import_module instantiate paths)) = Inr loaded"
  shows "(let available = dict_of (usable_modules import_module instantiate paths);
              skipped = filter (\<lambda>m. usable_class import_module (module_name_of m) = None) paths
          in get_supplier_classes import_module instantiate load_suppliers_config paths g =
               (Inr loaded,
                g\<lparr>AVAILABLE_SUPPLIERS := Some (map fst available), SUPPLIER_OBJECTS := Some loaded\<rparr>,
                map (\<lambda>m. skip_message import_module (module_name_of m)) skipped @
                (if length loaded < length available then
                   [LogHint (''only loaded '' @ str_nat (length loaded) @ '' of ''
                               @ str_nat (length available) @ '' available supplier modules'')]
                 else [])))"
proof -
  have d: "discover import_module instantiate paths False [] [] =
             (Inr (dict_of (usable_modules import_module instantiate paths)),
              map (\<lambda>m. skip_message import_module (module_name_of m))
                  (filter (\<lambda>m. usable_class import_module (module_name_of m) = None) paths))"
    using discover_skips [OF assms(2) assms(3) assms(4), of "[]" "[]"]
    by (simp add: dict_of_def)
  show ?thesis
    by (simp add: get_supplier_classes_def assms(1) d assms(5) Let_def)
qed

theorem discovery_skips_failed_modules_witness:
  "SUPPLIER_OBJECTS no_globals = None \<and>
   list_all (\<lambda>m. \<forall>e. five_modules (module_name_of m) = Raises e \<longrightarrow> (\<exists>msg. e = ImportError msg))
            five_paths \<and>
   \<not> reload_clash five_modules five_paths False \<and>
   list_all (\<lambda>m. \<forall>cls. usable_class five_modules (module_name_of m) = Some cls
                    \<longrightarrow> (\<exists>supplier. constructed cls = Inr supplier)) five_paths \<and>
   all_but_ti (dict_of (usable_modules five_modules constructed five_paths)) = Inr [(''fe'', 11)] \<and>
   get_supplier_classes five_modules constructed all_but_ti five_paths no_globals =
     (Inr [(''fe'', 11)],
      no_globals\<lparr>AVAILABLE_SUPPLIERS := Some [''fe'', ''ti''], SUPPLIER_OBJECTS := Some [(''fe'', 11)]\<rparr>,
      [LogError None (''failed to load supplier module '' @ quoted ''supplier_dk''
                        @ '' with No module named digikey''),
       LogError None (''failed to load supplier module '' @ quoted ''supplier_none''
                        @ '' (no Supplier class defined)''),
       LogError None (''failed to load supplier module '' @ quoted ''supplier_two''
                        @ '' (multiple Supplier classes defined)''),
       LogHint ''only loaded 1 of 2 available supplier modules''])"
proof -
  have a: "SUPPLIER_OBJECTS no_globals = None"
    by (simp add: no_globals_def)
  have b: "\<forall>m \<in> set five_paths. \<forall>e. five_modules (module_name_of m) = Raises e
             \<longrightarrow> (\<exists>msg. e = ImportError msg)"
    by (simp add: five_paths_def five_modules_def module_name_of_def)
  have c: "\<not> reload_clash five_modules five_paths False"
    by (simp add: five_paths_def)
  have d: "\<forall>m \<in> set five_paths. \<forall>cls. usable_class five_modules (module_name_of m) = Some cls
             \<longrightarrow> (\<exists>supplier. constructed cls = Inr supplier)"
    by (simp add: constructed_def)
  have u: "usable_modules five_modules constructed five_paths = [(''fe'', 11), (''ti'', 12)]"
    by (simp add: usable_modules_Cons usable_modules_Nil five_paths_def usable_class_def
        five_modules_def supplier_classes_of_def module_name_of_def constructed_def)
  have s: "filter (\<lambda>m. usable_class five_modules (module_name_of m) = None) five_paths
             = [''dk'', ''none'', ''two'']"
    by (simp add: five_paths_def usable_class_def five_modules_def supplier_classes_of_def
        module_name_of_def)
  have av: "dict_of (usable_modules five_modules constructed five_paths) = [(''fe'', 11), (''ti'', 12)]"
    by (simp add: u dict_of_def)
  have ld: "all_but_ti (dict_of (usable_modules five_modules constructed five_paths)) = Inr [(''fe'', 11)]"
    by (simp add: av all_but_ti_def)
  have ms: "skip_message five_modules (module_name_of ''dk'') =
       LogError None (''failed to load supplier module '' @ quoted ''supplier_dk''
                        @ '' with No module named digikey'')"
    "skip_message five_modules (module_name_of ''none'') =
       LogError None (''failed to load supplier module '' @ quoted ''supplier_none''
                        @ '' (no Supplier class defined)'')"
    "skip_message five_modules (module_name_of ''two'') =
       LogError None (''failed to load supplier module '' @ quoted ''supplier_two''
                        @ '' (multiple Supplier classes defined)'')"
    by (simp_all add: skip_message_def five_modules_def supplier_classes_of_def module_name_of_def)
  have n: "str_nat (Suc 0) = ''1''" "str_nat (Suc (Suc 0)) = ''2''"
    by code_simp+
  have r: "get_supplier_classes five_modules constructed all_but_ti five_paths no_globals =
     (Inr [(''fe'', 11)],
      no_globals\<lparr>AVAILABLE_SUPPLIERS := Some [''fe'', ''ti''], SUPPLIER_OBJECTS := Some [(''fe'', 11)]\<rparr>,
      [LogError None (''failed to load supplier module '' @ quoted ''supplier_dk''
                        @ '' with No module named digikey''),
       LogError None (''failed to load supplier module '' @ quoted ''supplier_none''
                        @ '' (no Supplier class defined)''),
       LogError None (''failed to load supplier module '' @ quoted ''supplier_two''
                        @ '' (multiple Supplier classes defined)''),
       LogHint ''only loaded 1 of 2 available supplier modules''])"
    using discovery_skips_failed_modules
      [where g = no_globals and paths = five_paths and import_module = five_modules
         and instantiate = constructed and load_suppliers_config = all_but_ti
         and loaded = "[(''fe'', 11)]", OF a b c d ld]
    by (simp add: Let_def av s ms n)
  show ?thesis
    using a b c d ld r by (simp only: list_all_iff simp_thms)
qed

text \<open>
  Claim C6 as stated fails: an exception escapes \<open>get_supplier_classes\<close>, with nothing
  logged and \<open>_SUPPLIER_OBJECTS\<close> left empty, in each of these runs.
  \<^item> Only \<open>ImportError\<close> is caught: a module whose import raises another exception ends
    the discovery, and the module after it is not examined.
  \<^item> The call \<open>supplier_classes[0]()\<close> is outside the \<open>try\<close>: a constructor that raises
    ends the discovery.
  \<^item> After a module was imported, \<open>supplier_classes\<close> is a local variable: for the
    file \<open>supplier_classes.py\<close> the test \<open>module_name in locals()\<close> holds and
    \<open>importlib.reload\<close>, called on a list, raises \<open>TypeError\<close>.
\<close>

theorem discovery_counterexample:
  "get_supplier_classes syntax_error_module constructed all_but_ti [''bad'', ''fe''] no_globals =
     (Inl (OtherException ''SyntaxError''), no_globals\<lparr>SUPPLIER_OBJECTS := Some []\<rparr>, []) \<and>
   get_supplier_classes sound_modules failing_constructor all_but_ti [''fe'', ''ti''] no_globals =
     (Inl (OtherException ''ValueError''), no_globals\<lparr>SUPPLIER_OBJECTS := Some []\<rparr>, []) \<and>
   get_supplier_classes sound_modules constructed all_but_ti [''fe'', ''classes''] no_globals =
     (Inl TypeError, no_globals\<lparr>SUPPLIER_OBJECTS := Some []\<rparr>, [])"
proof -
  have 1: "discover syntax_error_module constructed [''bad'', ''fe''] False [] [] =
             (Inl (OtherException ''SyntaxError''), [])"
    by (simp add: syntax_error_module_def module_name_of_def Let_def)
  have 2: "discover sound_modules failing_constructor [''fe'', ''ti''] False [] [] =
             (Inl (OtherException ''ValueError''), [])"
    by (simp add: sound_modules_def failing_constructor_def module_name_of_def
        supplier_classes_of_def Let_def)
  have 3: "discover sound_modules constructed [''fe'', ''classes''] False [] [] = (Inl TypeError, [])"
    by (simp add: sound_modules_def constructed_def supplier_classes_name supplier_classes_of_def Let_def)
  show ?thesis
    unfolding get_supplier_classes_def 1 2 3 by (simp add: no_globals_def)
qed

section \<open>The record invariant\<close>

lemma dict_of_keys_aux:
  "fst ` set (foldl (\<lambda>d (k, v). AList.update k v d) acc kvs) = fst ` set acc \<union> fst ` set kvs"
proof (induction kvs arbitrary: acc)
  case Nil
  then show ?case by simp
next
  case (Cons kv kvs)
  obtain k v where kv: "kv = (k, v)" by (cases kv)
  show ?case by (auto simp: kv Cons.IH AList.dom_update)
qed

lemma dict_of_keys: "fst ` set (dict_of kvs) = fst ` set kvs"
  by (simp add: dict_of_def dict_of_keys_aux)

lemma select_pricing_mem:
  "select_pricing target vs pd = pd \<or> select_pricing target vs pd \<in> set vs"
proof (induction vs arbitrary: pd)
  case Nil
  then show ?case by simp
next
  case (Cons v vs)
  show ?case using Cons.IH [of v] Cons.IH [of pd] by auto
qed

lemma FE_price_breaks_keys:
  "q \<in> fst ` set (FE_price_breaks m ups) \<Longrightarrow> q = m \<or> (m < q \<and> q \<in> fst ` set ups)"
proof -
  assume "q \<in> fst ` set (FE_price_breaks m ups)"
  then obtain v where "map_of (FE_price_breaks m ups) q = Some v"
    by (metis domD dom_map_of_conv_image_fst)
  then have "q = m \<or> (m < q \<and> map_of (rev ups) q = Some v)"
    by (simp add: FE_price_breaks_map_of split: if_splits)
  then show ?thesis
    by (metis (no_types) domI dom_map_of_conv_image_fst set_rev)
qed

text \<open>
  Claim C7, as amended. The adapters copy \<open>sku\<close>, \<open>mpn\<close> and \<open>quantity_available\<close> from
  the upstream object without a check, and the keys of \<open>price_breaks\<close> are upstream
  quantities: for Future Electronics the stated minimum order quantity or a quantity
  strictly above it, for Texas Instruments the quantities of the selected price list.
  So the record satisfies the invariant whenever the upstream object does: for Future
  Electronics when seller part number and mpn are not both empty, the stock is not
  negative and the minimum order quantity is positive; for Texas Instruments when the part
  number is not empty, the stock is not negative and every listed quantity is positive.
\<close>

theorem records_copy_upstream:
  "SKU (FE_get_api_part fp) = fe_seller_part_number fp \<and>
   MPN (FE_get_api_part fp) = fe_mpn fp \<and>
   quantity_available (FE_get_api_part fp) = fe_quantity_available fp \<and>
   (\<forall>q \<in> fst ` set (price_breaks (FE_get_api_part fp)).
      q = fe_quantity_minimum fp \<or> (fe_quantity_minimum fp < q \<and> q \<in> fst ` set (fe_pricing fp))) \<and>
   (\<not> (fe_seller_part_number fp = [] \<and> fe_mpn fp = []) \<and> 0 \<le> fe_quantity_available fp
      \<and> 0 < fe_quantity_minimum fp \<longrightarrow> record_invariant (FE_get_api_part fp)) \<and>
   SKU (TI_get_api_part target tp) = ti_tiPartNumber tp \<and>
   MPN (TI_get_api_part target tp) = ti_tiPartNumber tp \<and>
   quantity_available (TI_get_api_part target tp) = ti_quantity tp \<and>
   fst ` set (price_breaks (TI_get_api_part target tp))
     = fst ` set (pl_priceBreaks (TI_pricingData target tp)) \<and>
   (ti_tiPartNumber tp \<noteq> [] \<and> 0 \<le> ti_quantity tp
      \<and> (\<forall>l \<in> set (ti_pricing tp). \<forall>q \<in> fst ` set (pl_priceBreaks l). 0 < q)
      \<longrightarrow> record_invariant (TI_get_api_part target tp))"
proof -
  have fe_keys: "q = fe_quantity_minimum fp \<or> (fe_quantity_minimum fp < q \<and> q \<in> fst ` set (fe_pricing fp))"
    if "q \<in> fst ` set (price_breaks (FE_get_api_part fp))" for q
    using that FE_price_breaks_keys [of q "fe_quantity_minimum fp" "fe_pricing fp"]
    by (simp add: price_breaks_FE_get_api_part)
  have fe_inv: "record_invariant (FE_get_api_part fp)"
    if h: "\<not> (fe_seller_part_number fp = [] \<and> fe_mpn fp = []) \<and> 0 \<le> fe_quantity_available fp
      \<and> 0 < fe_quantity_minimum fp"
  proof -
    have "0 < q" if "q \<in> fst ` set (price_breaks (FE_get_api_part fp))" for q
      using fe_keys [OF that] h by auto
    then have "list_all (\<lambda>q. 0 < q) (map fst (price_breaks (FE_get_api_part fp)))"
      by (simp add: list_all_iff)
    moreover have "SKU (FE_get_api_part fp) = fe_seller_part_number fp"
      "MPN (FE_get_api_part fp) = fe_mpn fp"
      "quantity_available (FE_get_api_part fp) = fe_quantity_available fp"
      by (simp_all add: FE_get_api_part_def Let_def)
    ultimately show ?thesis using h by (simp add: record_invariant_def)
  qed
  have ti_keys: "fst ` set (price_breaks (TI_get_api_part target tp))
     = fst ` set (pl_priceBreaks (TI_pricingData target tp))"
    by (simp add: TI_get_api_part_def Let_def dict_of_keys)
  have ti_inv: "record_invariant (TI_get_api_part target tp)"
    if h: "ti_tiPartNumber tp \<noteq> [] \<and> 0 \<le> ti_quantity tp
      \<and> (\<forall>l \<in> set (ti_pricing tp). \<forall>q \<in> fst ` set (pl_priceBreaks l). 0 < q)"
  proof -
    have "TI_pricingData target tp = \<lparr> pl_currency = target, pl_priceBreaks = [] \<rparr>
            \<or> TI_pricingData target tp \<in> set (ti_pricing tp)"
      unfolding TI_pricingData_def by (rule select_pricing_mem)
    then have "\<forall>q \<in> fst ` set (pl_priceBreaks (TI_pricingData target tp)). 0 < q"
      using h by auto
    then have "list_all (\<lambda>q. 0 < q) (map fst (price_breaks (TI_get_api_part target tp)))"
      using ti_keys by (simp add: list_all_iff)
    moreover have "SKU (TI_get_api_part target tp) = ti_tiPartNumber tp"
      "MPN (TI_get_api_part target tp) = ti_tiPartNumber tp"
      "quantity_available (TI_get_api_part target tp) = ti_quantity tp"
      by (simp_all add: TI_get_api_part_def Let_def)
    ultimately show ?thesis using h by (simp add: record_invariant_def)
  qed
  show ?thesis
    using fe_keys fe_inv ti_keys ti_inv
    by (simp add: FE_get_api_part_def TI_get_api_part_def Let_def)
qed

theorem records_copy_upstream_witness:
  "\<not> (fe_seller_part_number offer_1_10_100 = [] \<and> fe_mpn offer_1_10_100 = []) \<and>
   0 \<le> fe_quantity_available offer_1_10_100 \<and> 0 < fe_quantity_minimum offer_1_10_100 \<and>
   record_invariant (FE_get_api_part offer_1_10_100) \<and>
   list_all (\<lambda>q. 10 \<le> q) (map fst (price_breaks (FE_get_api_part offer_1_10_100))) \<and>
   ti_tiPartNumber product_eur_usd \<noteq> [] \<and> 0 \<le> ti_quantity product_eur_usd \<and>
   list_all (\<lambda>l. list_all (\<lambda>q. 0 < q) (map fst (pl_priceBreaks l))) (ti_pricing product_eur_usd) \<and>
   record_invariant (TI_get_api_part ''GBP'' product_eur_usd)"
  using records_copy_upstream [of offer_1_10_100 "''GBP''" product_eur_usd]
  by (auto simp: offer_1_10_100_def product_eur_usd_def eur_list_def usd_list_def list_all_iff)

text \<open>
  Claim C7 as stated fails: an offer, and a product, without part numbers, with stock
  \<open>-1\<close> and a price break at quantity 0 give records that break each part of the
  invariant.
\<close>

theorem record_invariant_counterexample:
  "\<not> record_invariant (FE_get_api_part unchecked_offer) \<and>
   SKU (FE_get_api_part unchecked_offer) = [] \<and> MPN (FE_get_api_part unchecked_offer) = [] \<and>
   quantity_available (FE_get_api_part unchecked_offer) = - 1 \<and>
   price_breaks (FE_get_api_part unchecked_offer) = [(0, 1)] \<and>
   \<not> record_invariant (TI_get_api_part ''USD'' unchecked_product) \<and>
   SKU (TI_get_api_part ''USD'' unchecked_product) = [] \<and>
   MPN (TI_get_api_part ''USD'' unchecked_product) = [] \<and>
   quantity_available (TI_get_api_part ''USD'' unchecked_product) = - 1 \<and>
   price_breaks (TI_get_api_part ''USD'' unchecked_product) = [(0, 1)]"
  by (simp add: record_invariant_def FE_get_api_part_def TI_get_api_part_def unchecked_offer_def
      unchecked_product_def FE_price_breaks_def TI_pricingData_def dict_of_def Let_def)

section \<open>The cached token\<close>

lemma retry_no_auth_sent:
  assumes body: "\<And>res hs self w. \<exists>fl res'. body (res, hs, self, w) = (fl, (res', hs, self, w\<lparr>sent := sent w @ [rq hs]\<rparr>))"
  shows "retry_timeouts n body (res, hs, self, w) = (fl, (res', hs', self', w')) \<Longrightarrow>
           self' = self \<and> hs' = hs \<and> ticks w' = ticks w \<and> logged w' = logged w \<and>
           (\<exists>k. (0 < n \<longrightarrow> 0 < k) \<and> sent w' = sent w @ replicate k (rq hs))"
proof (induction n arbitrary: res w fl res' hs' self' w')
  case 0
  then show ?case by simp
next
  case (Suc n)
  obtain fl1 res1 where b: "body (res, hs, self, w) = (fl1, (res1, hs, self, w\<lparr>sent := sent w @ [rq hs]\<rparr>))"
    using body by blast
  let ?w1 = "w\<lparr>sent := sent w @ [rq hs]\<rparr>"
  show ?case
  proof (cases "\<exists>e. fl1 = Raised e \<and> (e = Timeout \<or> e = ConnectionError) \<and> n \<noteq> 0")
    case True
    then have "retry_timeouts n body (res1, hs, self, ?w1) = (fl, (res', hs', self', w'))"
      using Suc.prems by (auto simp: b)
    from Suc.IH [OF this] obtain k where
      "self' = self" "hs' = hs" "ticks w' = ticks w" "logged w' = logged w"
      "sent w' = sent ?w1 @ replicate k (rq hs)" by auto
    then have "sent w' = sent w @ replicate (Suc k) (rq hs)"
      by (simp add: replicate_app_Cons_same)
    then show ?thesis
      using \<open>self' = self\<close> \<open>hs' = hs\<close> \<open>ticks w' = ticks w\<close> \<open>logged w' = logged w\<close> by blast
  next
    case False
    then have "(fl, (res', hs', self', w')) = (fl1, (res1, hs, self, ?w1))"
      using Suc.prems by (cases fl1) (auto simp: b split: if_splits)
    then have "self' = self" "hs' = hs" "ticks w' = ticks w" "logged w' = logged w"
      "sent w' = sent w @ replicate (Suc 0) (rq hs)" by simp_all
    then show ?thesis by blast
  qed
qed

lemma TI_attempt_no_auth:
  "\<exists>fl res'. TI_attempt getOauthToken env url query False bodydata (res, hs, self, w) =
     (fl, (res', hs, self, w\<lparr>sent := sent w @
        [\<lparr> rq_method = (if bodydata \<noteq> None then POST else GET),
                   rq_url = url, rq_query = query, rq_headers = hs, rq_data = bodydata \<rparr>]\<rparr>))"
  by (simp add: TI_attempt_def TI_send_def requests_call_def split: http_outcome.splits)

lemma except_handler_world:
  "except_handler action e result f w = (x, y) \<Longrightarrow> sent y = sent w \<and> ticks y = ticks w"
  by (auto simp: except_handler_def error_def Let_def split: option.splits list.splits)

lemma TI_after_loop_world:
  assumes "TI_after_loop action (fl, (result, hs, (self, w))) = (r, (self', w'))"
  shows "self' = self \<and> sent w' = sent w \<and> ticks w' = ticks w"
proof (cases fl)
  case Completed
  then show ?thesis using assms by (auto simp: TI_after_loop_def split: option.splits)
next
  case (Returned x)
  then show ?thesis using assms by (auto simp: TI_after_loop_def)
next
  case (Raised e)
  show ?thesis
  proof (cases "e = HTTPError \<or> e = Timeout")
    case False
    then show ?thesis using assms Raised by (auto simp: TI_after_loop_def)
  next
    case True
    obtain x y where h: "except_handler action e result (\<lambda>j. map_option (map message) (errors_of j)) w = (x, y)"
      by (cases "except_handler action e result (\<lambda>j. map_option (map message) (errors_of j)) w")
    from except_handler_world [OF h] have "sent y = sent w \<and> ticks y = ticks w" .
    moreover have "self' = self \<and> w' = y"
      using assms Raised True h by (auto simp: TI_after_loop_def)
    ultimately show ?thesis by simp
  qed
qed


lemma TI_do_request_no_auth:
  assumes r: "TI_do_request_with getOauthToken env action urldata False bodydata (self, w) = (r, (self', w'))"
  shows "self' = self \<and> ticks w' = ticks w \<and>
         (\<exists>k. (0 < max_attempts env \<longrightarrow> 0 < k) \<and>
              sent w' = sent w @ replicate k
                \<lparr> rq_method = (if bodydata \<noteq> None then POST else GET),
                  rq_url = TI_BASE_URL @ action,
                  rq_query = (case urldata of None \<Rightarrow> [] | Some d \<Rightarrow> d),
                  rq_headers = [(''Accept'', ''application/json'')] @
                    (if bodydata \<noteq> None then [(''Content-Type'', ''application/x-www-form-urlencoded'')]
                     else []),
                  rq_data = bodydata \<rparr>)"
proof -
  define url where "url = TI_BASE_URL @ action"
  define query where "query = (case urldata of None \<Rightarrow> [] | Some d \<Rightarrow> d)"
  define headers where "headers = [(''Accept'', ''application/json'')] @
            (if bodydata \<noteq> None then [(''Content-Type'', ''application/x-www-form-urlencoded'')]
             else [])"
  define rq where "rq = (\<lambda>hs. \<lparr> rq_method = (if bodydata \<noteq> None then POST else GET),
                   rq_url = url, rq_query = query, rq_headers = hs, rq_data = bodydata \<rparr>)"
  define body where "body = TI_attempt getOauthToken env url query False bodydata"
  obtain fl res hs self1 w1 where
    loop: "retry_timeouts (max_attempts env) body (None, headers, self, w) = (fl, (res, hs, self1, w1))"
    by (cases "retry_timeouts (max_attempts env) body (None, headers, self, w)") auto
  have inv: "self1 = self \<and> hs = headers \<and> ticks w1 = ticks w \<and> logged w1 = logged w \<and>
           (\<exists>k. (0 < max_attempts env \<longrightarrow> 0 < k) \<and> sent w1 = sent w @ replicate k (rq headers))"
  proof (rule retry_no_auth_sent [where body = body and rq = rq])
    show "\<exists>fl res'. body (res, hs, self, w) = (fl, (res', hs, self, w\<lparr>sent := sent w @ [rq hs]\<rparr>))"
      for res hs self w
      unfolding body_def rq_def by (rule TI_attempt_no_auth)
    show "retry_timeouts (max_attempts env) body (None, headers, self, w) = (fl, (res, hs, self1, w1))"
      by (rule loop)
  qed
  have "TI_do_request_with getOauthToken env action urldata False bodydata (self, w) =
          TI_after_loop action (fl, (res, hs, (self1, w1)))"
    using loop by (simp add: TI_do_request_with_def body_def url_def query_def headers_def)
  then have "TI_after_loop action (fl, (res, hs, (self1, w1))) = (r, (self', w'))"
    using r by simp
  from TI_after_loop_world [OF this]
  have "self' = self1 \<and> sent w' = sent w1 \<and> ticks w' = ticks w1" .
  then show ?thesis
    using inv by (auto simp: rq_def url_def query_def headers_def)
qed

lemma TI_do_request_no_auth_any:
  "TI_do_request_with g env action urldata False bodydata st
     = TI_do_request_with g' env action urldata False bodydata st"
proof -
  have "TI_send g env url query False bodydata = TI_send g' env url query False bodydata" for url query
    by (rule ext) (simp add: TI_send_def split: prod.splits)
  then have "TI_attempt g env url query False bodydata = TI_attempt g' env url query False bodydata"
    for url query
    by (simp add: TI_attempt_def)
  then show ?thesis
    by (simp add: TI_do_request_with_def)
qed

text \<open>
  Claim C8. For every state of the API object and of the world, with \<open>now\<close> the reading
  of the clock that \<open>_getOauthToken\<close> takes:
  \<^item> when \<open>now\<close> is more than 60 seconds before the cached expiry, the cached token is
    returned, the cache is unchanged and no request is sent;
  \<^item> otherwise the request for a token goes to the token endpoint with the client
    credentials (once per attempt of the retry policy, at least once), and
  \<^item> when that request returns a response with a success status and a bearer token, the
    new token is returned and cached, with the expiry \<open>now\<close> plus the reported
    \<open>expires_in\<close>.
\<close>

theorem oauth_token_cache:
  "(clock env (ticks w) < oauthValidUntil self - 60 \<longrightarrow>
      TI_getOauthToken env (self, w) =
        (Inr (Some (oauthAccessToken self)), (self, w\<lparr>ticks := Suc (ticks w)\<rparr>))) \<and>
   (\<not> clock env (ticks w) < oauthValidUntil self - 60 \<longrightarrow>
      (0 < max_attempts env \<longrightarrow>
         (\<exists>k > 0. sent (snd (snd (TI_getOauthToken env (self, w))))
                    = sent w @ replicate k (token_request self))) \<and>
      (\<forall>result w' access_token expires_in.
         TI_do_request env ''v1/oauth/accesstoken'' None False (Some (token_request_body self))
             (self, w\<lparr>ticks := Suc (ticks w)\<rparr>) = (Inr (Some result), (self, w'))
           \<and> \<not> raises_for_status result
           \<and> json result = Some (TokenObj ''bearer'' access_token expires_in) \<longrightarrow>
         TI_getOauthToken env (self, w) =
           (Inr (Some access_token),
            (self\<lparr>oauthAccessToken := access_token,
                   oauthValidUntil := clock env (ticks w) + expires_in\<rparr>, w'))))"
proof (intro conjI impI allI)
  assume "clock env (ticks w) < oauthValidUntil self - 60"
  then show "TI_getOauthToken env (self, w) =
        (Inr (Some (oauthAccessToken self)), (self, w\<lparr>ticks := Suc (ticks w)\<rparr>))"
    by (simp add: TI_getOauthToken_def Let_def)
next
  fix result w' access_token expires_in
  assume stale: "\<not> clock env (ticks w) < oauthValidUntil self - 60"
    and ok: "TI_do_request env ''v1/oauth/accesstoken'' None False (Some (token_request_body self))
             (self, w\<lparr>ticks := Suc (ticks w)\<rparr>) = (Inr (Some result), (self, w'))
           \<and> \<not> raises_for_status result
           \<and> json result = Some (TokenObj ''bearer'' access_token expires_in)"
  have "TI_do_request_with (\<lambda>st. (Inr None, st)) env ''v1/oauth/accesstoken'' None False
          (Some (token_request_body self)) (self, w\<lparr>ticks := Suc (ticks w)\<rparr>)
        = (Inr (Some result), (self, w'))"
    using ok TI_do_request_no_auth_any [of "\<lambda>st. (Inr None, st)" env _ _ _ _ "TI_getOauthToken env"]
    by (simp add: TI_do_request_def)
  then show "TI_getOauthToken env (self, w) =
           (Inr (Some access_token),
            (self\<lparr>oauthAccessToken := access_token,
                   oauthValidUntil := clock env (ticks w) + expires_in\<rparr>, w'))"
    using stale ok by (simp add: TI_getOauthToken_def Let_def)
next
  assume stale: "\<not> clock env (ticks w) < oauthValidUntil self - 60"
    and pos: "0 < max_attempts env"
  let ?w1 = "w\<lparr>ticks := Suc (ticks w)\<rparr>"
  let ?call = "TI_do_request_with (\<lambda>st. (Inr None, st)) env ''v1/oauth/accesstoken'' None False
          (Some (token_request_body self)) (self, ?w1)"
  obtain r self1 w1 where call: "?call = (r, (self1, w1))"
    by (cases ?call) auto
  from TI_do_request_no_auth [OF call] pos
  obtain k where k: "0 < k" "sent w1 = sent w @ replicate k (token_request self)" and s1: "self1 = self"
    by (auto simp: token_request_def)
  have "sent (snd (snd (TI_getOauthToken env (self, w)))) = sent w1"
    using stale call
    by (auto simp: TI_getOauthToken_def Let_def error_def split: sum.splits option.splits ti_json.splits)
  then show "\<exists>k > 0. sent (snd (snd (TI_getOauthToken env (self, w))))
                    = sent w @ replicate k (token_request self)"
    using k by auto
qed

theorem oauth_token_cache_witness:
  "\<not> clock ti_exact_404 (ticks quiet_world) < oauthValidUntil (TIApi_init ''id'' ''secret'' ''EUR'') - 60 \<and>
   0 < max_attempts ti_exact_404 \<and>
   TI_getOauthToken ti_exact_404 (TIApi_init ''id'' ''secret'' ''EUR'', quiet_world) =
     (Inr (Some ''tok''), (api_with_token, world_after_token)) \<and>
   oauthValidUntil api_with_token = 5 + 3600 \<and>
   sent world_after_token = [token_request (TIApi_init ''id'' ''secret'' ''EUR'')] \<and>
   clock ti_exact_404 (ticks world_after_token) < oauthValidUntil api_with_token - 60 \<and>
   TI_getOauthToken ti_exact_404 (api_with_token, world_after_token) =
     (Inr (Some ''tok''), (api_with_token, world_after_token\<lparr>ticks := 2\<rparr>))"
proof -
  let ?self = "TIApi_init ''id'' ''secret'' ''EUR''"
  have stale: "\<not> clock ti_exact_404 (ticks quiet_world) < oauthValidUntil ?self - 60"
    by (simp add: ti_exact_404_def TIApi_init_def)
  have pos: "0 < max_attempts ti_exact_404"
    by (simp add: ti_exact_404_def)
  have call: "TI_do_request ti_exact_404 ''v1/oauth/accesstoken'' None False
                (Some (token_request_body ?self)) (?self, quiet_world\<lparr>ticks := Suc (ticks quiet_world)\<rparr>)
              = (Inr (Some token_response), (?self, world_after_token))"
    by code_simp
  have resp: "\<not> raises_for_status token_response"
    "json token_response = Some (TokenObj ''bearer'' ''tok'' 3600)"
    by (simp_all add: token_response_def raises_for_status_def)
  have fresh: "clock ti_exact_404 (ticks world_after_token) < oauthValidUntil api_with_token - 60"
    by (simp add: ti_exact_404_def api_with_token_def world_after_token_def)
  have c: "clock ti_exact_404 (ticks quiet_world) = 5" "ticks world_after_token = 1"
    "oauthAccessToken api_with_token = ''tok''"
    "?self\<lparr>oauthAccessToken := ''tok'', oauthValidUntil := 5 + 3600\<rparr> = api_with_token"
    "sent world_after_token = [token_request ?self]"
    by (simp_all add: ti_exact_404_def world_after_token_def api_with_token_def TIApi_init_def
        token_request_def)
  show ?thesis
    using stale pos fresh call resp c
      oauth_token_cache [of ti_exact_404 quiet_world ?self]
      oauth_token_cache [of ti_exact_404 world_after_token api_with_token]
    by (simp add: api_with_token_def)
qed

section \<open>The request operation when the service does not answer\<close>

lemma retry_timeouts_unbound:
  assumes body: "\<And>s. \<exists>e s'. body (None, s) = (Raised e, (None, s')) \<and> (e = Timeout \<or> e = UnboundLocalError)"
  shows "\<exists>fl s'. retry_timeouts n body (None, s) = (fl, (None, s'))
            \<and> (fl = Completed \<or> fl = Raised Timeout \<or> fl = Raised UnboundLocalError)"
proof (induction n arbitrary: s)
  case 0
  then show ?case by simp
next
  case (Suc n)
  obtain e s' where b: "body (None, s) = (Raised e, (None, s'))" and e: "e = Timeout \<or> e = UnboundLocalError"
    using body [of s] by blast
  show ?case
  proof (cases "e = Timeout \<and> n \<noteq> 0")
    case True
    then show ?thesis using Suc.IH [of s'] by (simp add: b)
  next
    case False
    then show ?thesis using e by (auto simp: b)
  qed
qed

lemma FE_do_request_timeouts:
  assumes "\<forall>n rq. net env n rq = NetTimeout"
  shows "fst (FE_do_request env key action urldata w) = Inl UnboundLocalError"
proof -
  define rq where "rq = \<lparr> rq_method = GET, rq_url = FE_BASE_URL @ action,
      rq_query = (case urldata of None \<Rightarrow> [] | Some d \<Rightarrow> d),
      rq_headers = [(''Accept'', ''application/json''), (''x-orbweaver-licensekey'', key)],
      rq_data = None \<rparr>"
  have "\<exists>e s'. FE_attempt env rq (None, s) = (Raised e, (None, s')) \<and> (e = Timeout \<or> e = UnboundLocalError)"
    for s
    using assms by (simp add: FE_attempt_def requests_call_def)
  from retry_timeouts_unbound [of "FE_attempt env rq", OF this]
  obtain fl w' where r: "retry_timeouts (max_attempts env) (FE_attempt env rq) (None, w) = (fl, (None, w'))"
    and fl: "fl = Completed \<or> fl = Raised Timeout \<or> fl = Raised UnboundLocalError"
    by blast
  have "FE_do_request env key action urldata w = FE_after_loop action (fl, (None, w'))"
    by (simp add: FE_do_request_def rq_def [symmetric] r)
  then show ?thesis using fl
    by (auto simp: FE_after_loop_def except_handler_def)
qed

lemma TI_send_timeouts:
  assumes net: "\<forall>n rq. net env n rq = NetTimeout"
      and tok: "auth \<Longrightarrow> (\<And>st. (\<exists>st'. getOauthToken st = (Inl UnboundLocalError, st'))
                          \<or> (\<exists>token st'. getOauthToken st = (Inr (Some token), st')))"
  shows "\<exists>e s'. TI_send getOauthToken env url query auth bodydata s = (Inl e, s')
                \<and> (e = Timeout \<or> e = UnboundLocalError)"
proof -
  obtain hs self w where s: "s = (hs, self, w)" by (cases s) auto
  show ?thesis
  proof (cases auth)
    case False
    then show ?thesis using net by (simp add: s TI_send_def requests_call_def)
  next
    case True
    from tok [OF True, of "(self, w)"] show ?thesis
    proof
      assume "\<exists>st'. getOauthToken (self, w) = (Inl UnboundLocalError, st')"
      then show ?thesis using True by (auto simp: s TI_send_def)
    next
      assume "\<exists>token st'. getOauthToken (self, w) = (Inr (Some token), st')"
      then obtain token self' w' where "getOauthToken (self, w) = (Inr (Some token), (self', w'))"
        by auto
      then show ?thesis using True net by (simp add: s TI_send_def requests_call_def)
    qed
  qed
qed

lemma TI_do_request_with_timeouts:
  assumes net: "\<forall>n rq. net env n rq = NetTimeout"
      and tok: "auth \<Longrightarrow> (\<And>st. (\<exists>st'. getOauthToken st = (Inl UnboundLocalError, st'))
                          \<or> (\<exists>token st'. getOauthToken st = (Inr (Some token), st')))"
  shows "fst (TI_do_request_with getOauthToken env action urldata auth bodydata st) = Inl UnboundLocalError"
proof -
  define url where "url = TI_BASE_URL @ action"
  define query where "query = (case urldata of None \<Rightarrow> [] | Some d \<Rightarrow> d)"
  define headers where "headers = [(''Accept'', ''application/json'')] @
            (if bodydata \<noteq> None then [(''Content-Type'', ''application/x-www-form-urlencoded'')]
             else [])"
  define body where "body = TI_attempt getOauthToken env url query auth bodydata"
  have "\<exists>e s'. body (None, s) = (Raised e, (None, s')) \<and> (e = Timeout \<or> e = UnboundLocalError)" for s
  proof -
    obtain hs st where s: "s = (hs, st)" by (cases s)
    have "\<exists>e s'. TI_send getOauthToken env url query auth bodydata (hs, st) = (Inl e, s')
                \<and> (e = Timeout \<or> e = UnboundLocalError)"
      by (rule TI_send_timeouts [OF net]) (rule tok)
    then obtain e s' where "TI_send getOauthToken env url query auth bodydata (hs, st) = (Inl e, s')"
      and e: "e = Timeout \<or> e = UnboundLocalError"
      by blast
    then show ?thesis by (cases s') (auto simp: body_def TI_attempt_def s)
  qed
  from retry_timeouts_unbound [of body, OF this]
  obtain fl s' where r: "retry_timeouts (max_attempts env) body (None, headers, st) = (fl, (None, s'))"
    and fl: "fl = Completed \<or> fl = Raised Timeout \<or> fl = Raised UnboundLocalError"
    by blast
  obtain hs' self' w' where s': "s' = (hs', self', w')" by (cases s') auto
  have "TI_do_request_with getOauthToken env action urldata auth bodydata st =
          TI_after_loop action (fl, (None, hs', self', w'))"
    using r by (simp add: TI_do_request_with_def body_def url_def query_def headers_def s')
  then show ?thesis using fl
    by (auto simp: TI_after_loop_def except_handler_def)
qed

lemma TI_getOauthToken_timeouts:
  assumes net: "\<forall>n rq. net env n rq = NetTimeout"
  shows "(\<exists>st'. TI_getOauthToken env st = (Inl UnboundLocalError, st'))
           \<or> (\<exists>token st'. TI_getOauthToken env st = (Inr (Some token), st'))"
proof -
  obtain self w where st: "st = (self, w)" by (cases st)
  let ?w = "w\<lparr>ticks := Suc (ticks w)\<rparr>"
  let ?r = "TI_do_request_with (\<lambda>st. (Inr None, st)) env ''v1/oauth/accesstoken'' None False
                  (Some (token_request_body self)) (self, ?w)"
  have "fst ?r = Inl UnboundLocalError"
    by (rule TI_do_request_with_timeouts [OF net]) simp
  then obtain st' where "?r = (Inl UnboundLocalError, st')" by (cases ?r) auto
  then show ?thesis
    by (cases st') (simp add: st TI_getOauthToken_def Let_def)
qed

text \<open>
  Claim C9 fails on the code, by a slip: the handler of \<open>except (HTTPError, Timeout)\<close>
  reads the local \<open>result\<close>, which is unbound when no attempt has returned a response.
  When every attempt of the request times out, \<open>_do_request\<close> of either adapter ends
  with \<open>UnboundLocalError\<close>, which escapes to its caller; this holds for every attempt
  count of the retry policy, with and without authentication.
\<close>

theorem do_request_timeout_escapes:
  assumes "\<forall>n rq. net fe_env n rq = NetTimeout"
      and "\<forall>n rq. net ti_env n rq = NetTimeout"
  shows "fst (FE_do_request fe_env key action urldata w) = Inl UnboundLocalError \<and>
         fst (TI_do_request ti_env action urldata auth bodydata (self, w)) = Inl UnboundLocalError"
proof
  show "fst (FE_do_request fe_env key action urldata w) = Inl UnboundLocalError"
    using assms(1) by (rule FE_do_request_timeouts)
  show "fst (TI_do_request ti_env action urldata auth bodydata (self, w)) = Inl UnboundLocalError"
    unfolding TI_do_request_def
    using assms(2)
  proof (rule TI_do_request_with_timeouts)
    fix st
    show "(\<exists>st'. TI_getOauthToken ti_env st = (Inl UnboundLocalError, st'))
           \<or> (\<exists>token st'. TI_getOauthToken ti_env st = (Inr (Some token), st'))"
      using assms(2) by (rule TI_getOauthToken_timeouts)
  qed
qed

theorem do_request_timeout_escapes_witness:
  "(\<forall>n rq. net (never_in_time :: fe_json env) n rq = NetTimeout) \<and>
   (\<forall>n rq. net (never_in_time :: ti_json env) n rq = NetTimeout) \<and>
   fst (FE_do_request never_in_time ''key'' ''v1/pim-future/lookup''
          (Some [(''part_number'', QStr ''NE555''), (''lookup_type'', QStr ''contains'')]) quiet_world)
     = Inl UnboundLocalError \<and>
   fst (TI_do_request never_in_time ''v2/store/products'' None True None
          (TIApi_init ''id'' ''secret'' ''EUR'', quiet_world))
     = Inl UnboundLocalError"
proof -
  have a: "\<forall>n rq. net (never_in_time :: fe_json env) n rq = NetTimeout"
    by (simp add: never_in_time_def)
  have b: "\<forall>n rq. net (never_in_time :: ti_json env) n rq = NetTimeout"
    by (simp add: never_in_time_def)
  show ?thesis
    using a b do_request_timeout_escapes [OF a b] by simp
qed

section \<open>Pagination\<close>

lemma page_urldata_again:
  "page_urldata (Some (page_urldata urldata p)) q = page_urldata urldata q"
proof -
  let ?d = "case urldata of None \<Rightarrow> [] | Some d \<Rightarrow> d"
  let ?X = "AList.update ''page'' (QInt (int p)) (AList.update ''size'' (QInt 100) ?d)"
  have "map_of ?X ''size'' = Some (QInt 100)"
    by (simp add: AList.update_conv')
  then have "AList.update ''size'' (QInt 100) ?X = ?X"
    by (rule AList.update_triv)
  then show ?thesis
    by (simp add: page_urldata_def)
qed

lemma page_urldata_keys:
  "map_of (page_urldata urldata n) ''size'' = Some (QInt 100) \<and>
   map_of (page_urldata urldata n) ''page'' = Some (QInt (int n)) \<and>
   (\<forall>k. k \<noteq> ''size'' \<and> k \<noteq> ''page'' \<longrightarrow>
      map_of (page_urldata urldata n) k = map_of (case urldata of None \<Rightarrow> [] | Some d \<Rightarrow> d) k)"
  by (simp add: page_urldata_def AList.update_conv')

lemma paginate_loop_step:
  assumes u: "page_urldata u p = page_urldata urldata p"
  shows "paginate_loop env action u results p (page_state env action urldata st p) =
     (case page_result env action urldata st p of
        Inl e \<Rightarrow> Some (Inl e, page_state env action urldata st (Suc p))
      | Inr None \<Rightarrow> Some (Inr None, page_state env action urldata st (Suc p))
      | Inr (Some result) \<Rightarrow>
          if status_code result = 403 \<or> status_code result = 404
          then Some (Inr None, page_state env action urldata st (Suc p))
          else
            (case json result of
               None \<Rightarrow> Some (Inl JSONDecodeError, page_state env action urldata st (Suc p))
             | Some (PageObj content is_last) \<Rightarrow>
                 if is_last then Some (Inr (Some (results @ content)), page_state env action urldata st (Suc p))
                 else paginate_loop env action (Some (page_urldata urldata p)) (results @ content) (Suc p)
                        (page_state env action urldata st (Suc p))
             | Some _ \<Rightarrow> Some (Inl KeyError, page_state env action urldata st (Suc p))))"
proof -
  let ?call = "TI_api_call env action (Some (page_urldata urldata p)) (page_state env action urldata st p)"
  have c: "?call = (page_result env action urldata st p, page_state env action urldata st (Suc p))"
    by (simp add: page_result_def)
  have d: "AList.update ''page'' (QInt (int p))
             (AList.update ''size'' (QInt 100) (case u of None \<Rightarrow> [] | Some d \<Rightarrow> d))
           = page_urldata urldata p"
    using u by (simp add: page_urldata_def)
  have "paginate_loop env action u results p (page_state env action urldata st p) =
     (case ?call of
           (Inl e, st') \<Rightarrow> Some (Inl e, st')
         | (Inr None, st') \<Rightarrow> Some (Inr None, st')
         | (Inr (Some result), st') \<Rightarrow>
             if status_code result = 403 \<or> status_code result = 404 then Some (Inr None, st')
             else
               (case json result of
                  None \<Rightarrow> Some (Inl JSONDecodeError, st')
                | Some (PageObj content is_last) \<Rightarrow>
                    if is_last then Some (Inr (Some (results @ content)), st')
                    else paginate_loop env action (Some (page_urldata urldata p)) (results @ content) (Suc p) st'
                | Some _ \<Rightarrow> Some (Inl KeyError, st')))"
    by (subst paginate_loop.simps) (simp only: Let_def d)
  then show ?thesis
    by (simp add: c del: page_state.simps split: sum.splits option.splits ti_json.splits)
qed


lemma paginate_loop_run:
  assumes u: "page_urldata u p = page_urldata urldata p"
      and more: "\<forall>i. p \<le> i \<and> i < k \<longrightarrow> (\<exists>c. page_read env action urldata st i = Some (c, False))"
      and pk: "p \<le> k"
  shows "((\<exists>c. page_read env action urldata st k = Some (c, True)) \<longrightarrow>
            paginate_loop env action u results p (page_state env action urldata st p) =
              Some (Inr (Some (results @ concat (map (page_items env action urldata st) [p..<Suc k]))),
                    page_state env action urldata st (Suc k))) \<and>
         (page_failed env action urldata st k \<longrightarrow>
            paginate_loop env action u results p (page_state env action urldata st p) =
              Some (Inr None, page_state env action urldata st (Suc k)))"
  using u more pk
proof (induction "k - p" arbitrary: p u results)
  case 0
  then have pk: "p = k" by simp
  note step = paginate_loop_step [OF "0.prems"(1), of env action results st]
  show ?case
    unfolding pk [symmetric] step
    by (auto simp: page_read_def page_failed_def page_items_def
        simp del: page_state.simps split: sum.splits option.splits ti_json.splits if_splits)
next
  case (Suc d)
  then have lt: "p < k" by simp
  then obtain c where c: "page_read env action urldata st p = Some (c, False)"
    using Suc.prems(2) by auto
  note step = paginate_loop_step [OF Suc.prems(1), of env action results st]
  have rec: "paginate_loop env action u results p (page_state env action urldata st p) =
          paginate_loop env action (Some (page_urldata urldata p)) (results @ c) (Suc p)
            (page_state env action urldata st (Suc p))"
    unfolding step using c
    by (auto simp: page_read_def simp del: page_state.simps
        split: sum.splits option.splits ti_json.splits if_splits)
  have items: "page_items env action urldata st p = c"
    using c by (simp add: page_items_def)
  have upt: "[p..<Suc k] = p # [Suc p..<Suc k]"
    using lt by (simp add: upt_conv_Cons)
  have IH: "((\<exists>c. page_read env action urldata st k = Some (c, True)) \<longrightarrow>
            paginate_loop env action (Some (page_urldata urldata p)) (results @ c) (Suc p)
                (page_state env action urldata st (Suc p)) =
              Some (Inr (Some ((results @ c) @ concat (map (page_items env action urldata st) [Suc p..<Suc k]))),
                    page_state env action urldata st (Suc k))) \<and>
         (page_failed env action urldata st k \<longrightarrow>
            paginate_loop env action (Some (page_urldata urldata p)) (results @ c) (Suc p)
                (page_state env action urldata st (Suc p)) =
              Some (Inr None, page_state env action urldata st (Suc k)))"
  proof (rule Suc.hyps(1))
    show "d = k - Suc p" using Suc.hyps(2) by simp
    show "page_urldata (Some (page_urldata urldata p)) (Suc p) = page_urldata urldata (Suc p)"
      by (rule page_urldata_again)
    show "\<forall>i. Suc p \<le> i \<and> i < k \<longrightarrow> (\<exists>c. page_read env action urldata st i = Some (c, False))"
      using Suc.prems(2) by simp
    show "Suc p \<le> k" using lt by simp
  qed
  show ?case
    unfolding rec upt using IH by (simp add: items del: page_state.simps)
qed

text \<open>
  Claim C10. The request for page \<open>n\<close> carries \<open>size = 100\<close> and \<open>page = n\<close>, and the
  pages are requested in the order 0, 1, 2, ... For every \<open>k\<close> such that the pages before
  \<open>k\<close> are read and none says it is the last:
  \<^item> when page \<open>k\<close> is read and says it is the last, \<open>_paginate_api_call\<close> returns the
    items of the pages 0 to \<open>k\<close>, in this order;
  \<^item> when the request for page \<open>k\<close> fails or returns status 403 or 404, it returns
    \<open>None\<close>, dropping the items of the pages before;
  in both cases after exactly the requests for the pages 0 to \<open>k\<close>.
\<close>

theorem paginate_api_call_pages:
  "(\<forall>n. map_of (page_urldata urldata n) ''size'' = Some (QInt 100) \<and>
        map_of (page_urldata urldata n) ''page'' = Some (QInt (int n))) \<and>
   ((\<forall>i<k. \<exists>c. page_read env action urldata st i = Some (c, False)) \<longrightarrow>
      ((\<exists>c. page_read env action urldata st k = Some (c, True)) \<longrightarrow>
         TI_paginate_api_call env action urldata st =
           Some (Inr (Some (concat (map (page_items env action urldata st) [0..<Suc k]))),
                 page_state env action urldata st (Suc k))) \<and>
      (page_failed env action urldata st k \<longrightarrow>
         TI_paginate_api_call env action urldata st =
           Some (Inr None, page_state env action urldata st (Suc k))))"
proof (intro conjI allI impI)
  fix n
  show "map_of (page_urldata urldata n) ''size'' = Some (QInt 100)"
    using page_urldata_keys [of urldata n] by simp
  show "map_of (page_urldata urldata n) ''page'' = Some (QInt (int n))"
    using page_urldata_keys [of urldata n] by simp
next
  assume more: "\<forall>i<k. \<exists>c. page_read env action urldata st i = Some (c, False)"
  have run: "((\<exists>c. page_read env action urldata st k = Some (c, True)) \<longrightarrow>
            paginate_loop env action urldata [] 0 (page_state env action urldata st 0) =
              Some (Inr (Some ([] @ concat (map (page_items env action urldata st) [0..<Suc k]))),
                    page_state env action urldata st (Suc k))) \<and>
         (page_failed env action urldata st k \<longrightarrow>
            paginate_loop env action urldata [] 0 (page_state env action urldata st 0) =
              Some (Inr None, page_state env action urldata st (Suc k)))"
    by (rule paginate_loop_run) (use more in simp_all)
  {
    assume "\<exists>c. page_read env action urldata st k = Some (c, True)"
    then show "TI_paginate_api_call env action urldata st =
           Some (Inr (Some (concat (map (page_items env action urldata st) [0..<Suc k]))),
                 page_state env action urldata st (Suc k))"
      using run by (simp add: TI_paginate_api_call_def del: page_state.simps(2) upt_Suc)
  }
  {
    assume "page_failed env action urldata st k"
    then show "TI_paginate_api_call env action urldata st =
           Some (Inr None, page_state env action urldata st (Suc k))"
      using run by (simp add: TI_paginate_api_call_def del: page_state.simps(2) upt_Suc)
  }
qed

theorem paginate_api_call_pages_witness:
  "page_read two_pages ''v2/store/products'' gpn_query ti_start 0 = Some ([product_eur_usd], False) \<and>
   page_read two_pages ''v2/store/products'' gpn_query ti_start 1 = Some ([other_product], True) \<and>
   map_option fst (TI_paginate_api_call two_pages ''v2/store/products'' gpn_query ti_start)
     = Some (Inr (Some [product_eur_usd, other_product])) \<and>
   page_read second_page_404 ''v2/store/products'' gpn_query ti_start 0 = Some ([product_eur_usd], False) \<and>
   page_failed second_page_404 ''v2/store/products'' gpn_query ti_start 1 \<and>
   map_option fst (TI_paginate_api_call second_page_404 ''v2/store/products'' gpn_query ti_start)
     = Some (Inr None)"
proof -
  have a0: "page_read two_pages ''v2/store/products'' gpn_query ti_start 0 = Some ([product_eur_usd], False)"
    by code_simp
  have a1: "page_read two_pages ''v2/store/products'' gpn_query ti_start 1 = Some ([other_product], True)"
    by code_simp
  have b0: "page_read second_page_404 ''v2/store/products'' gpn_query ti_start 0 = Some ([product_eur_usd], False)"
    by code_simp
  have b1: "page_failed second_page_404 ''v2/store/products'' gpn_query ti_start 1"
    by code_simp
  have a: "\<forall>i<1. \<exists>c. page_read two_pages ''v2/store/products'' gpn_query ti_start i = Some (c, False)"
    using a0 by simp
  have b: "\<forall>i<1. \<exists>c. page_read second_page_404 ''v2/store/products'' gpn_query ti_start i = Some (c, False)"
    using b0 by simp
  have items: "page_items two_pages ''v2/store/products'' gpn_query ti_start 0 = [product_eur_usd]"
    "page_items two_pages ''v2/store/products'' gpn_query ti_start (Suc 0) = [other_product]"
    using a0 a1 by (simp_all add: page_items_def)
  have upt: "[0..<Suc (Suc 0)] = [0, Suc 0]" by (simp add: upt_rec)
  show ?thesis
    using a a0 a1 b b0 b1
      paginate_api_call_pages [of gpn_query 1 two_pages "''v2/store/products''" ti_start]
      paginate_api_call_pages [of gpn_query 1 second_page_404 "''v2/store/products''" ti_start]
    by (simp add: items upt del: page_state.simps upt_Suc)
qed

end
